theory Spec2Isabelle
  imports Complex_Main
begin

chapter \<open>Outage schedule extraction and batch rendering\<close>

text \<open>
  A shallow embedding of \<^verbatim>\<open>scripts/parse_fact.js\<close> (extraction of the embedded schedule
  literals and the per-region record) and of the task expansion of
  \<^verbatim>\<open>scripts/batch_render.mjs\<close>. Every definition follows one source function, or one
  stretch of the lines of \<open>main\<close>; what the scripts obtain from the JavaScript runtime or from
  the file system (the JSON decoder, the \<^verbatim>\<open>Function\<close> constructor, the digest, the clock, the
  files) is a parameter.
\<close>

section \<open>Text\<close>

text \<open>
  A JavaScript string is a sequence of UTF-16 code units; a code unit is modelled by its
  number. \<open>lit\<close> turns a literal of the source into code units.
\<close>

type_synonym ustring = "nat list"

definition lit :: "string \<Rightarrow> ustring" where
  "lit s = map of_char s"

text \<open>The characters matched by the regular expression \<^verbatim>\<open>/\s/\<close>.\<close>

definition is_space :: "nat \<Rightarrow> bool" where
  "is_space c \<longleftrightarrow>
     (9 \<le> c \<and> c \<le> 13) \<or> c = 32 \<or> c = 160 \<or> c = 5760 \<or> (8192 \<le> c \<and> c \<le> 8202) \<or>
     c = 8232 \<or> c = 8233 \<or> c = 8239 \<or> c = 8287 \<or> c = 12288 \<or> c = 65279"

text \<open>
  \<^verbatim>\<open>html.indexOf(marker)\<close>: the index of the first occurrence, \<open>None\<close> for the source's
  \<open>-1\<close>.
\<close>

definition startsWith :: "ustring \<Rightarrow> ustring \<Rightarrow> bool" where
  "startsWith s m \<longleftrightarrow> take (length m) s = m"

fun indexOf_from :: "ustring \<Rightarrow> ustring \<Rightarrow> nat \<Rightarrow> nat option" where
  "indexOf_from [] m i = (if m = [] then Some i else None)"
| "indexOf_from (c # cs) m i = (if startsWith (c # cs) m then Some i else indexOf_from cs m (Suc i))"

definition indexOf :: "ustring \<Rightarrow> ustring \<Rightarrow> nat option" where
  "indexOf s m = indexOf_from s m 0"

section \<open>Balanced extractor\<close>

text \<open>
  \<^verbatim>\<open>while (i < html.length && /\s/.test(html[i])) i++\<close>, run on the text from index \<open>i\<close> on.
\<close>

fun skip_space :: "ustring \<Rightarrow> nat \<Rightarrow> nat" where
  "skip_space [] i = i"
| "skip_space (c # cs) i = (if is_space c then skip_space cs (Suc i) else i)"

definition LBRACE :: nat where "LBRACE = 123"
definition RBRACE :: nat where "RBRACE = 125"
definition LBRACK :: nat where "LBRACK = 91"
definition RBRACK :: nat where "RBRACK = 93"

text \<open>
  One round of the scanning loop on the two counters \<open>(depthCurly, depthSquare)\<close>. The
  counters are integers: a closer without opener makes one negative.
\<close>

definition count_step :: "nat \<Rightarrow> int \<times> int \<Rightarrow> int \<times> int" where
  "count_step ch d =
     (if ch = LBRACE then (fst d + 1, snd d)
      else if ch = RBRACE then (fst d - 1, snd d)
      else if ch = LBRACK then (fst d, snd d + 1)
      else if ch = RBRACK then (fst d, snd d - 1)
      else d)"

text \<open>
  The \<^verbatim>\<open>for (; i < html.length; i++)\<close> loop, run on the text from index \<open>i\<close> on: the index
  at which it returns, \<open>None\<close> when it falls off the end of the text.
\<close>

fun scan :: "ustring \<Rightarrow> nat \<Rightarrow> int \<times> int \<Rightarrow> nat option" where
  "scan [] i d = None"
| "scan (ch # rest) i d =
     (let d' = count_step ch d
      in if fst d' = 0 \<and> snd d' = 0 then Some i else scan rest (Suc i) d')"

text \<open>
  The result of \<open>extractDisconObject\<close>: \<^verbatim>\<open>{ error }\<close> or
  \<^verbatim>\<open>{ jsonLike, startIndex, endIndex }\<close>.
\<close>

datatype extraction = ExtError ustring | Extracted ustring nat nat

definition slice :: "ustring \<Rightarrow> nat \<Rightarrow> nat \<Rightarrow> ustring" where
  "slice s a b = take (b - a) (drop a s)"

definition marker_of :: "ustring \<Rightarrow> ustring" where
  "marker_of key = lit ''DisconSchedule.'' @ key @ lit '' =''"

definition extractDisconObject :: "ustring \<Rightarrow> ustring \<Rightarrow> extraction" where
  "extractDisconObject html key =
     (let marker = marker_of key
      in case indexOf html marker of
           None \<Rightarrow> ExtError (lit ''Marker `DisconSchedule.'' @ key @ lit '' =` not found'')
         | Some idx \<Rightarrow>
             (let i = skip_space (drop (idx + length marker) html) (idx + length marker)
              in if \<not> (i < length html \<and> (html ! i = LBRACE \<or> html ! i = LBRACK))
                 then ExtError (lit ''Expected '{' or '[' after `DisconSchedule.'' @ key @ lit '' =`'')
                 else (case scan (drop i html) i (0, 0) of
                         None \<Rightarrow> ExtError (lit ''Unbalanced braces while extracting '' @ key @ lit '' object'')
                       | Some e \<Rightarrow> Extracted (slice html i (e + 1)) i (e + 1))))"


text \<open>
  Correctly nested delimiters, as a grammar: plain characters, a nested text in curly or in
  square delimiters, and sequences of these. \<open>counters\<close> gives the two counters after a
  text has been read from \<open>(0, 0)\<close>.
\<close>

definition is_delim :: "nat \<Rightarrow> bool" where
  "is_delim c \<longleftrightarrow> c = LBRACE \<or> c = RBRACE \<or> c = LBRACK \<or> c = RBRACK"

inductive nested :: "ustring \<Rightarrow> bool" where
  nested_Nil: "nested []"
| nested_plain: "\<not> is_delim c \<Longrightarrow> nested [c]"
| nested_curly: "nested u \<Longrightarrow> nested (LBRACE # u @ [RBRACE])"
| nested_square: "nested u \<Longrightarrow> nested (LBRACK # u @ [RBRACK])"
| nested_append: "nested u \<Longrightarrow> nested v \<Longrightarrow> nested (u @ v)"

definition counters :: "ustring \<Rightarrow> int \<times> int" where
  "counters s = foldl (\<lambda>d ch. count_step ch d) (0, 0) s"

definition run :: "int \<times> int \<Rightarrow> ustring \<Rightarrow> int \<times> int" where
  "run d s = foldl (\<lambda>d ch. count_step ch d) d s"

section \<open>JavaScript values\<close>

text \<open>
  A number is a double: a finite value, an infinity or \<open>NaN\<close>. A finite value is kept as the
  rational it denotes; the finite doubles are the rationals \<open>m * 2^k\<close> with \<open>\<bar>m\<bar> < 2^53\<close>
  and \<open>-1074 \<le> k \<le> 971\<close>. The two zeros are one value: the scripts do not divide, and
  \<^verbatim>\<open>JSON.stringify\<close> writes both as \<^verbatim>\<open>0\<close>.
\<close>

datatype jsnum = Num rat | Infinity | NegInfinity | NaN

text \<open>
  Rounding of a rational to the nearest double, ties to the even significand (IEEE 754,
  binary64). \<open>binade n p a\<close> doubles \<open>p\<close> at most \<open>n\<close> times while the double still is at most
  \<open>a\<close>: from the least normal magnitude \<open>2^-1022\<close> it finds the power of two at the bottom of
  the binade of \<open>a\<close>, up to \<open>2^1023\<close>. \<open>ulp a\<close> is the distance between neighbouring doubles
  of magnitude \<open>a\<close>. A result of magnitude \<open>2^1024\<close> is an infinity.
\<close>

definition min_normal :: rat where
  "min_normal = 1 / 2 ^ 1022"

fun binade :: "nat \<Rightarrow> rat \<Rightarrow> rat \<Rightarrow> rat" where
  "binade 0 p a = p"
| "binade (Suc n) p a = (if 2 * p \<le> a then binade n (2 * p) a else p)"

definition ulp :: "rat \<Rightarrow> rat" where
  "ulp a = binade 2045 min_normal a / 2 ^ 52"

definition round_half_even :: "rat \<Rightarrow> int" where
  "round_half_even x =
     (let f = \<lfloor>x\<rfloor>
      in if x - of_int f < 1 / 2 then f
         else if 1 / 2 < x - of_int f then f + 1
         else if even f then f else f + 1)"

definition to_double :: "rat \<Rightarrow> jsnum" where
  "to_double x =
     (let q = ulp \<bar>x\<bar>;
          r = of_int (round_half_even (x / q)) * q
      in if 2 ^ 1024 \<le> r then Infinity
         else if r \<le> - (2 ^ 1024) then NegInfinity
         else Num r)"

text \<open>The expression \<^verbatim>\<open>x + 1\<close> on a number \<open>x\<close>.\<close>

fun plus_one :: "jsnum \<Rightarrow> jsnum" where
  "plus_one (Num a) = to_double (a + 1)"
| "plus_one x = x"

declare plus_one.simps [simp del]

text \<open>
  The values the scripts handle: results of \<^verbatim>\<open>JSON.parse\<close>, object literals of the source,
  and \<open>undefined\<close>. An object is the list of its own properties in insertion order; an array
  has its elements and, as any JavaScript object, may be given named properties.
\<close>

datatype jsval =
    JUndef
  | JNull
  | JBool bool
  | JNum jsnum
  | JStr ustring
  | JArr "jsval list" "(ustring \<times> jsval) list"
  | JObj "(ustring \<times> jsval) list"

text \<open>Truthiness, \<^verbatim>\<open>a || b\<close>, and the two \<^verbatim>\<open>typeof\<close> tests the scripts make.\<close>

fun truthy :: "jsval \<Rightarrow> bool" where
  "truthy JUndef = False"
| "truthy JNull = False"
| "truthy (JBool b) = b"
| "truthy (JNum x) = (x \<noteq> Num 0 \<and> x \<noteq> NaN)"
| "truthy (JStr s) = (s \<noteq> [])"
| "truthy (JArr xs ps) = True"
| "truthy (JObj ps) = True"

definition js_or :: "jsval \<Rightarrow> jsval \<Rightarrow> jsval" where
  "js_or a b = (if truthy a then a else b)"

fun is_number :: "jsval \<Rightarrow> bool" where
  "is_number (JNum x) = True"
| "is_number v = False"

fun is_object :: "jsval \<Rightarrow> bool" where
  "is_object JNull = True"
| "is_object (JArr xs ps) = True"
| "is_object (JObj ps) = True"
| "is_object v = False"

text \<open>
  Reading and writing a named property. The scripts read and write only the names
  \<open>lastUpdateStatus\<close>, \<open>attempt\<close>, \<open>meta\<close>, \<open>schemaVersion\<close>, \<open>contentHash\<close>, \<open>regionId\<close>,
  \<open>fact\<close>, \<open>preset\<close> and \<open>data\<close>, none of which is inherited from a prototype or is an
  index, so the own named properties decide. Reading from a primitive gives \<open>undefined\<close>;
  writing to a primitive is ignored (the scripts are not in strict mode). On \<open>null\<close> and
  \<open>undefined\<close> both raise \<open>TypeError\<close>: the callers below test for these first, as the
  source does.
\<close>

fun lookup :: "(ustring \<times> jsval) list \<Rightarrow> ustring \<Rightarrow> jsval" where
  "lookup [] k = JUndef"
| "lookup (p # ps) k = (if fst p = k then snd p else lookup ps k)"

fun put :: "ustring \<Rightarrow> jsval \<Rightarrow> (ustring \<times> jsval) list \<Rightarrow> (ustring \<times> jsval) list" where
  "put k v [] = [(k, v)]"
| "put k v (p # ps) = (if fst p = k then (k, v) # ps else p # put k v ps)"

fun get_prop :: "jsval \<Rightarrow> ustring \<Rightarrow> jsval" where
  "get_prop (JObj ps) k = lookup ps k"
| "get_prop (JArr xs ps) k = lookup ps k"
| "get_prop v k = JUndef"

fun set_prop :: "jsval \<Rightarrow> ustring \<Rightarrow> jsval \<Rightarrow> jsval" where
  "set_prop (JObj ps) k v = JObj (put k v ps)"
| "set_prop (JArr xs ps) k v = JArr xs (put k v ps)"
| "set_prop x k v = x"

text \<open>
  What \<^verbatim>\<open>JSON.parse(JSON.stringify(v))\<close> gives, for \<open>v\<close> other than \<open>undefined\<close>: the value a
  later run reads back from the file. Properties holding \<open>undefined\<close> and the named
  properties of arrays are not written; \<open>undefined\<close> array elements, the infinities and
  \<open>NaN\<close> are written as \<open>null\<close>; a finite double is read back as it was. Indentation
  (\<^verbatim>\<open>--pretty\<close>) does not change the value read back.
\<close>

fun to_json :: "jsval \<Rightarrow> jsval" where
  "to_json (JObj ps) =
     JObj (map (\<lambda>p. (fst p, to_json (snd p))) (filter (\<lambda>p. snd p \<noteq> JUndef) ps))"
| "to_json (JArr xs ps) = JArr (map (\<lambda>x. if x = JUndef then JNull else to_json x) xs) []"
| "to_json (JNum (Num a)) = JNum (Num a)"
| "to_json (JNum x) = JNull"
| "to_json v = v"

fun num_of :: "jsval \<Rightarrow> jsnum" where
  "num_of (JNum x) = x"
| "num_of v = Num 0"

section \<open>Environment of one run of parse_fact.js\<close>

text \<open>
  What can be thrown during a run: a \<open>TypeError\<close> of the engine, a failure of a file
  operation, or a value of type \<open>'t\<close> thrown by the evaluated text or by a property the
  evaluated text defined. The first two are \<^verbatim>\<open>Error\<close> objects made by the runtime.
\<close>

datatype 't exn = TypeError | IOError | Thrown 't

text \<open>
  How a call ends that runs code of the evaluated text: it returns a value, it throws, it
  ends the process with a code (\<^verbatim>\<open>process.exit\<close>), or it does not return.
\<close>

datatype ('x, 'a) outcome = Returns 'a | Throws 'x | Exits nat | Hangs

text \<open>The file at \<^verbatim>\<open>args.input\<close>: absent, present but unreadable, or readable.\<close>

datatype infile = Missing | Unreadable | Contents ustring

text \<open>
  What a run obtains from outside the script:
  \<^item> \<open>input_file\<close>: the file at \<^verbatim>\<open>args.input\<close>;
  \<^item> \<open>output_file\<close>: what \<open>loadExisting(args.output)\<close> returns, \<open>null\<close> when the file is absent
    or is not JSON;
  \<^item> \<open>template_file\<close>: the decoded \<^verbatim>\<open>data/_template.json\<close>, \<open>None\<close> when reading or decoding
    it raises;
  \<^item> \<open>now_at n\<close>: the time string the \<open>n\<close>-th call of \<open>isoNow\<close> returns;
  \<^item> \<open>JSON_parse\<close>: \<^verbatim>\<open>JSON.parse\<close>, \<open>None\<close> when it raises;
  \<^item> \<open>Function_eval w body\<close>: \<^verbatim>\<open>Function(body)()\<close> run in the ambient state \<open>w\<close> of the
    process (global object, \<^verbatim>\<open>process\<close>, whatever the evaluated text can reach): how the
    call ends, with the ambient state left behind;
  \<^item> \<open>message_of w t\<close>: the expression \<^verbatim>\<open>'...' + t.message\<close> on a thrown value \<open>t\<close> in the
    ambient state \<open>w\<close>. It returns the text the message contributes; it throws when \<open>t\<close> is
    \<open>null\<close> or \<open>undefined\<close>, when the property is an accessor that throws, or when the
    conversion to a string throws; an accessor may also end the process or not return. The
    ambient state is left behind;
  \<^item> \<open>exitCode w\<close>: the code a process in the ambient state \<open>w\<close> ends with when \<open>main\<close> has
    returned, that is \<^verbatim>\<open>process.exitCode\<close>, or 0 when that is not set; \<open>None\<close> when the
    evaluated text has left work behind that keeps the process from ending;
  \<^item> \<open>exit_as w c\<close>: the code a process in the ambient state \<open>w\<close> ends with when
    \<^verbatim>\<open>process.exit(c)\<close> is called or, for \<open>c = 1\<close>, an exception is not caught. It is \<open>c\<close>, unless
    the evaluated text has registered a listener on \<^verbatim>\<open>process\<close> that changes the code or
    keeps the process from ending (\<open>None\<close>);
  \<^item> \<open>digest_hex\<close>: the SHA-256 hex digest of the crypto library;
  \<^item> \<open>write_succeeds n\<close>: whether the \<open>n\<close>-th call of \<open>writeFileAtomic\<close> completes;
  \<^item> \<open>error_message\<close>: the \<^verbatim>\<open>message\<close> of an \<^verbatim>\<open>Error\<close> object made by the runtime.

  Evaluated text that replaces what the script calls afterwards (\<^verbatim>\<open>JSON\<close>,
  \<^verbatim>\<open>process.exit\<close>, the file system) is outside this model. So is a returned value that
  \<^verbatim>\<open>JSON.stringify\<close> cannot write or that runs code when written.
\<close>

record ('w, 't) env =
  input_file :: infile
  output_file :: jsval
  template_file :: "jsval option"
  now_at :: "nat \<Rightarrow> ustring"
  JSON_parse :: "ustring \<Rightarrow> jsval option"
  Function_eval :: "'w \<Rightarrow> ustring \<Rightarrow> ('t, jsval) outcome \<times> 'w"
  message_of :: "'w \<Rightarrow> 't \<Rightarrow> ('t, ustring) outcome \<times> 'w"
  exitCode :: "'w \<Rightarrow> nat option"
  exit_as :: "'w \<Rightarrow> nat \<Rightarrow> nat option"
  digest_hex :: "ustring \<Rightarrow> ustring"
  write_succeeds :: "nat \<Rightarrow> bool"
  error_message :: "'t exn \<Rightarrow> ustring"

text \<open>
  The state of the process: clock reads and write calls so far, the value most recently
  written to \<^verbatim>\<open>args.output\<close> by this run, and the ambient state.
\<close>

record 'w proc =
  clock_reads :: nat
  write_calls :: nat
  written :: "jsval option"
  world :: 'w

text \<open>The result of \<open>parseArgs\<close>; \<open>None\<close> is an option that was not given.\<close>

record args =
  arg_region :: "ustring option"
  arg_input :: "ustring option"
  arg_output :: "ustring option"
  arg_upstream :: "ustring option"
  arg_pretty :: bool

definition isoNow :: "('w, 't) env \<Rightarrow> 'w proc \<Rightarrow> ustring \<times> 'w proc" where
  "isoNow e p = (now_at e (clock_reads p), p\<lparr>clock_reads := Suc (clock_reads p)\<rparr>)"

definition sha256 :: "('w, 't) env \<Rightarrow> ustring \<Rightarrow> ustring" where
  "sha256 e data = digest_hex e data"

text \<open>
  The expression \<^verbatim>\<open>'...' + e.message\<close> in a \<^verbatim>\<open>catch (e)\<close> block. The message of an
  \<^verbatim>\<open>Error\<close> object made by the runtime is a plain text.
\<close>

definition read_message ::
  "('w, 't) env \<Rightarrow> 'w \<Rightarrow> 't exn \<Rightarrow> ('t exn, ustring) outcome \<times> 'w" where
  "read_message e w x =
     (case x of
        Thrown t \<Rightarrow>
          (case message_of e w t of
             (Returns m, w') \<Rightarrow> (Returns m, w')
           | (Throws t', w') \<Rightarrow> (Throws (Thrown t'), w')
           | (Exits n, w') \<Rightarrow> (Exits n, w')
           | (Hangs, w') \<Rightarrow> (Hangs, w'))
      | TypeError \<Rightarrow> (Returns (error_message e x), w)
      | IOError \<Rightarrow> (Returns (error_message e x), w))"

text \<open>
  \<^verbatim>\<open>writeFileAtomic(args.output, JSON.stringify(v))\<close>: the temporary file is written and
  renamed, so the output file holds the new text or is unchanged. For \<open>undefined\<close> there is
  no text and the write raises. The result is the exception raised, if any.
\<close>

definition writeFileAtomic :: "('w, 't) env \<Rightarrow> 'w proc \<Rightarrow> jsval \<Rightarrow> 't exn option \<times> 'w proc" where
  "writeFileAtomic e p v =
     (let p' = p\<lparr>write_calls := Suc (write_calls p)\<rparr>
      in if v = JUndef then (Some TypeError, p')
         else if write_succeeds e (write_calls p) then (None, p'\<lparr>written := Some (to_json v)\<rparr>)
         else (Some IOError, p'))"

section \<open>Dual-mode parser\<close>

text \<open>
  What \<open>tryParseObject\<close> returns: \<^verbatim>\<open>{ error }\<close> or \<^verbatim>\<open>{ value, method }\<close>. It throws what the
  \<^verbatim>\<open>catch\<close> block throws when it reads the message of what the evaluation threw. The state
  returned with the outcome is the ambient state after the call.
\<close>

datatype parse_result = ParseFailed ustring | Parsed jsval ustring

definition tryParseObject ::
  "('w, 't) env \<Rightarrow> 'w \<Rightarrow> ustring \<Rightarrow> ('t exn, parse_result) outcome \<times> 'w" where
  "tryParseObject e w text =
     (case JSON_parse e text of
        Some v \<Rightarrow> (Returns (Parsed v (lit ''json'')), w)
      | None \<Rightarrow>
          (case Function_eval e w (lit ''\"use strict\"; return ('' @ text @ lit '');'') of
             (Returns val, w') \<Rightarrow> (Returns (Parsed val (lit ''eval'')), w')
           | (Throws t, w') \<Rightarrow>
               (case read_message e w' (Thrown t) of
                  (Returns msg, w'') \<Rightarrow>
                    (Returns (ParseFailed (lit ''Failed to parse object: '' @ msg)), w'')
                | (Throws x, w'') \<Rightarrow> (Throws x, w'')
                | (Exits n, w'') \<Rightarrow> (Exits n, w'')
                | (Hangs, w'') \<Rightarrow> (Hangs, w''))
           | (Exits n, w') \<Rightarrow> (Exits n, w')
           | (Hangs, w') \<Rightarrow> (Hangs, w')))"

section \<open>Record store\<close>

definition loadExisting :: "('w, 't) env \<Rightarrow> jsval" where
  "loadExisting e = output_file e"

text \<open>
  \<open>loadTemplateBase\<close>: the decoded template file or the literal of the source. The
  assignment to \<^verbatim>\<open>template.regionId\<close> raises when the file decodes to \<open>null\<close>.
\<close>

definition fallback_template :: "jsval \<Rightarrow> jsval" where
  "fallback_template regionId =
     JObj [(lit ''regionId'', js_or regionId JNull),
           (lit ''lastUpdated'', JNull),
           (lit ''fact'', JNull),
           (lit ''preset'', JNull),
           (lit ''lastUpdateStatus'',
              JObj [(lit ''status'', JStr (lit ''idle'')), (lit ''ok'', JBool True),
                    (lit ''code'', JNull), (lit ''message'', JNull), (lit ''at'', JNull),
                    (lit ''attempt'', JNum (Num 0))]),
           (lit ''meta'',
              JObj [(lit ''schemaVersion'', JStr (lit ''1.0.0'')),
                    (lit ''contentHash'', JNull)])]"

definition loadTemplateBase :: "('w, 't) env \<Rightarrow> jsval \<Rightarrow> 't exn + jsval" where
  "loadTemplateBase e regionId =
     (let template = (case template_file e of Some t \<Rightarrow> t | None \<Rightarrow> fallback_template regionId)
      in if template = JNull \<or> template = JUndef then Inl TypeError
         else Inr (set_prop template (lit ''regionId'')
                     (js_or regionId (js_or (get_prop template (lit ''regionId'')) JNull))))"

text \<open>
  The expression both paths use for \<open>prevAttempt\<close>, on a value that is not \<open>null\<close> or
  \<open>undefined\<close>, and the object literal assigned to \<^verbatim>\<open>base.lastUpdateStatus\<close>, whose
  \<open>attempt\<close> is \<^verbatim>\<open>prevAttempt + 1\<close>.
\<close>

definition attempt_in :: "jsval \<Rightarrow> jsnum" where
  "attempt_in base =
     (if truthy (get_prop base (lit ''lastUpdateStatus''))
         \<and> is_number (get_prop (get_prop base (lit ''lastUpdateStatus'')) (lit ''attempt''))
      then num_of (get_prop (get_prop base (lit ''lastUpdateStatus'')) (lit ''attempt''))
      else Num 0)"

definition error_status :: "jsval \<Rightarrow> jsval \<Rightarrow> ustring \<Rightarrow> jsnum \<Rightarrow> jsval" where
  "error_status code message now prevAttempt =
     JObj [(lit ''status'', JStr (lit ''error'')), (lit ''ok'', JBool False),
           (lit ''code'', code), (lit ''message'', message), (lit ''at'', JStr now),
           (lit ''attempt'', JNum (plus_one prevAttempt))]"

text \<open>
  \<open>updateStatusOnError\<close> changes \<open>base\<close> in place and returns it; \<open>base\<close> is the freshly
  decoded file or template, which nothing else refers to, so the model returns the new value.
\<close>

definition updateStatusOnError ::
  "('w, 't) env \<Rightarrow> 'w proc \<Rightarrow> jsval \<Rightarrow> jsval \<Rightarrow> jsval \<Rightarrow> jsval \<Rightarrow> jsval \<Rightarrow>
   ('t exn + jsval) \<times> 'w proc" where
  "updateStatusOnError e p existingObj regionId upstream code message =
     (let (now, p1) = isoNow e p
      in case (if truthy existingObj then Inr existingObj else loadTemplateBase e regionId) of
           Inl x \<Rightarrow> (Inl x, p1)
         | Inr base \<Rightarrow>
             (let prevAttempt = attempt_in base;
                  base1 = set_prop base (lit ''lastUpdateStatus'')
                            (error_status code message now prevAttempt);
                  meta = get_prop base1 (lit ''meta'');
                  base2 =
                    (if truthy meta \<and> is_object meta
                     then set_prop base1 (lit ''meta'')
                            (set_prop meta (lit ''schemaVersion'')
                               (js_or (get_prop meta (lit ''schemaVersion''))
                                  (JStr (lit ''1.0.0''))))
                     else base1)
              in (Inr base2, p1)))"

text \<open>The status literal of the success path, and \<open>buildOutput\<close>.\<close>

definition parsed_status :: "ustring \<Rightarrow> jsnum \<Rightarrow> jsval" where
  "parsed_status now attempt =
     JObj [(lit ''status'', JStr (lit ''parsed'')), (lit ''ok'', JBool True),
           (lit ''code'', JNum (Num 200)), (lit ''message'', JNull), (lit ''at'', JStr now),
           (lit ''attempt'', JNum attempt)]"

definition buildOutput ::
  "('w, 't) env \<Rightarrow> 'w proc \<Rightarrow> ustring \<Rightarrow> jsval \<Rightarrow> jsval \<Rightarrow> jsval \<times> 'w proc" where
  "buildOutput e p regionId factObj presetObj =
     (let (now, p1) = isoNow e p
      in (JObj [(lit ''regionId'', JStr regionId),
                (lit ''lastUpdated'', JStr now),
                (lit ''fact'', factObj),
                (lit ''preset'', presetObj),
                (lit ''lastUpdateStatus'', parsed_status now (Num 1)),
                (lit ''meta'',
                   JObj [(lit ''schemaVersion'', JStr (lit ''1.0.0'')),
                         (lit ''contentHash'', JNull)])],
          p1))"

section \<open>The script\<close>

text \<open>
  How a piece of \<open>main\<close> ends: a call of \<^verbatim>\<open>process.exit(code)\<close>, in the script or in the
  evaluated text, an exception that leaves \<open>main\<close>, its last statement, or not at all.
\<close>

datatype ('w, 't) flow =
  Exit nat "'w proc" | Throw "'t exn" "'w proc" | Done "'w proc" | Hang "'w proc"

text \<open>
  The block \<open>main\<close> runs at each failure: load the previous record, update its status,
  write it, exit with code 0.
\<close>

definition record_error ::
  "('w, 't) env \<Rightarrow> 'w proc \<Rightarrow> ustring \<Rightarrow> rat \<Rightarrow> ustring \<Rightarrow> ('w, 't) flow" where
  "record_error e p regionId code message =
     (let existing = loadExisting e
      in case updateStatusOnError e p existing (JStr regionId) JNull (JNum (Num code))
                (JStr message) of
           (Inl x, p1) \<Rightarrow> Throw x p1
         | (Inr errObj, p1) \<Rightarrow>
             (case writeFileAtomic e p1 errObj of
                (Some y, p2) \<Rightarrow> Throw y p2
              | (None, p2) \<Rightarrow> Exit 0 p2))"

text \<open>
  \<^verbatim>\<open>factExt.jsonLike + '|' + (presetExt.error ? '' : presetExt.jsonLike)\<close>.
\<close>

definition hashInput :: "ustring \<Rightarrow> extraction \<Rightarrow> ustring" where
  "hashInput factText presetExt =
     factText @ lit ''|'' @ (case presetExt of ExtError err \<Rightarrow> [] | Extracted t s n \<Rightarrow> t)"

text \<open>
  The expression \<open>main\<close> uses for \<open>prevAttempt\<close> on the success path.
\<close>

definition prevAttemptOf :: "jsval \<Rightarrow> jsnum" where
  "prevAttemptOf existing = (if truthy existing then attempt_in existing else Num 0)"

text \<open>
  The lines of \<open>main\<close> that parse the \<open>preset\<close> literal: \<open>null\<close> when it was not extracted or
  has no value in either mode.
\<close>

definition parse_preset ::
  "('w, 't) env \<Rightarrow> 'w \<Rightarrow> extraction \<Rightarrow> ('t exn, jsval) outcome \<times> 'w" where
  "parse_preset e w presetExt =
     (case presetExt of
        ExtError err \<Rightarrow> (Returns JNull, w)
      | Extracted presetText s n \<Rightarrow>
          (case tryParseObject e w presetText of
             (Returns (ParseFailed err), w') \<Rightarrow> (Returns JNull, w')
           | (Returns (Parsed v m), w') \<Rightarrow> (Returns v, w')
           | (Throws x, w') \<Rightarrow> (Throws x, w')
           | (Exits n, w') \<Rightarrow> (Exits n, w')
           | (Hangs, w') \<Rightarrow> (Hangs, w')))"

text \<open>The lines of \<open>main\<close> from the second call of \<open>isoNow\<close> on: build the record and write it.\<close>

definition store_parsed ::
  "('w, 't) env \<Rightarrow> 'w proc \<Rightarrow> ustring \<Rightarrow> ustring \<Rightarrow> extraction \<Rightarrow> jsval \<Rightarrow> jsval \<Rightarrow>
   ('w, 't) flow" where
  "store_parsed e p regionId factText presetExt factVal presetParsed =
     (let (now, p1) = isoNow e p;
          (outObj, p2) = buildOutput e p1 regionId factVal presetParsed;
          existing = loadExisting e;
          prevAttempt = prevAttemptOf existing;
          outObj1 = set_prop outObj (lit ''lastUpdateStatus'')
                      (parsed_status now (plus_one prevAttempt));
          hash = sha256 e (hashInput factText presetExt);
          outObj2 = set_prop outObj1 (lit ''meta'')
                      (set_prop (get_prop outObj1 (lit ''meta''))
                         (lit ''contentHash'') (JStr hash))
      in case writeFileAtomic e p2 outObj2 of
           (Some y, p3) \<Rightarrow> Throw y p3
         | (None, p3) \<Rightarrow> Done p3)"

text \<open>\<open>main\<close> from the point where the input has been read.\<close>

definition parse_and_store ::
  "('w, 't) env \<Rightarrow> 'w proc \<Rightarrow> ustring \<Rightarrow> ustring \<Rightarrow> ustring \<Rightarrow> ('w, 't) flow" where
  "parse_and_store e p regionId inp html =
     (case extractDisconObject html (lit ''fact'') of
        ExtError err \<Rightarrow> record_error e p regionId 422 (err @ lit '' in '' @ inp)
      | Extracted factText s n \<Rightarrow>
          (let presetExt = extractDisconObject html (lit ''preset'')
           in case tryParseObject e (world p) factText of
                (Returns (ParseFailed err), w1) \<Rightarrow>
                  record_error e (p\<lparr>world := w1\<rparr>) regionId 422 (err @ lit '' in '' @ inp)
              | (Returns (Parsed factVal method), w1) \<Rightarrow>
                  (case parse_preset e w1 presetExt of
                     (Returns presetParsed, w2) \<Rightarrow>
                       store_parsed e (p\<lparr>world := w2\<rparr>) regionId factText presetExt
                         factVal presetParsed
                   | (Throws x, w2) \<Rightarrow> Throw x (p\<lparr>world := w2\<rparr>)
                   | (Exits n, w2) \<Rightarrow> Exit n (p\<lparr>world := w2\<rparr>)
                   | (Hangs, w2) \<Rightarrow> Hang (p\<lparr>world := w2\<rparr>))
              | (Throws x, w1) \<Rightarrow> Throw x (p\<lparr>world := w1\<rparr>)
              | (Exits n, w1) \<Rightarrow> Exit n (p\<lparr>world := w1\<rparr>)
              | (Hangs, w1) \<Rightarrow> Hang (p\<lparr>world := w1\<rparr>)))"

text \<open>
  \<open>given\<close> is the truthiness of an option of the command line, \<open>str_of\<close> its text and
  \<open>arg_val\<close> its value (\<open>undefined\<close> when absent).
\<close>

fun given :: "ustring option \<Rightarrow> bool" where
  "given None = False"
| "given (Some s) = (s \<noteq> [])"

fun str_of :: "ustring option \<Rightarrow> ustring" where
  "str_of None = []"
| "str_of (Some s) = s"

definition main :: "('w, 't) env \<Rightarrow> args \<Rightarrow> 'w proc \<Rightarrow> ('w, 't) flow" where
  "main e a p =
     (if \<not> given (arg_region a) \<or> \<not> given (arg_input a) \<or> \<not> given (arg_output a) then Exit 2 p
      else (case input_file e of
              Missing \<Rightarrow>
                record_error e p (str_of (arg_region a)) 404 (lit ''Input not found: '' @ str_of (arg_input a))
            | Unreadable \<Rightarrow> Throw IOError p
            | Contents html \<Rightarrow> parse_and_store e p (str_of (arg_region a)) (str_of (arg_input a)) html))"

fun arg_val :: "ustring option \<Rightarrow> jsval" where
  "arg_val None = JUndef"
| "arg_val (Some s) = JStr s"

text \<open>
  The \<^verbatim>\<open>catch\<close> block around \<open>main()\<close>: the code the process is asked to end with, \<open>None\<close>
  when the block does not end, and the final state. The message of the exception is read
  twice. The first read, for the warning, is outside the inner \<^verbatim>\<open>try\<close>: what it throws
  is not caught and the process ends as with code 1. The second read and the attempt to
  record the failure are inside: their exceptions are dropped, and \<^verbatim>\<open>process.exit(0)\<close>
  follows.
\<close>

definition crash_handler ::
  "('w, 't) env \<Rightarrow> args \<Rightarrow> 't exn \<Rightarrow> 'w proc \<Rightarrow> nat option \<times> 'w proc" where
  "crash_handler e a x p =
     (case read_message e (world p) x of
        (Throws y, w1) \<Rightarrow> (Some 1, p\<lparr>world := w1\<rparr>)
      | (Exits n, w1) \<Rightarrow> (Some n, p\<lparr>world := w1\<rparr>)
      | (Hangs, w1) \<Rightarrow> (None, p\<lparr>world := w1\<rparr>)
      | (Returns warning, w1) \<Rightarrow>
          (let regionId = arg_val (arg_region a);
               upstream = js_or (arg_val (arg_upstream a)) JNull;
               existing = (if given (arg_output a) then loadExisting e else JNull)
           in case read_message e w1 x of
                (Throws y, w2) \<Rightarrow> (Some 0, p\<lparr>world := w2\<rparr>)
              | (Exits n, w2) \<Rightarrow> (Some n, p\<lparr>world := w2\<rparr>)
              | (Hangs, w2) \<Rightarrow> (None, p\<lparr>world := w2\<rparr>)
              | (Returns msg, w2) \<Rightarrow>
                  (case updateStatusOnError e (p\<lparr>world := w2\<rparr>) existing regionId upstream
                          (JNum (Num 500)) (JStr (lit ''parse_fact crashed: '' @ msg)) of
                     (Inl y, p1) \<Rightarrow> (Some 0, p1)
                   | (Inr errObj, p1) \<Rightarrow>
                       (if given (arg_output a)
                        then (Some 0, snd (writeFileAtomic e p1 errObj))
                        else (Some 0, p1)))))"

text \<open>
  The script run as a program: the exit code, \<open>None\<close> when the process does not end, and the
  final state. A \<open>main\<close> that returns lets the process run to completion; \<open>finish\<close> ends a
  process that was asked to end with a code.
\<close>

definition start :: "'w \<Rightarrow> 'w proc" where
  "start w = \<lparr>clock_reads = 0, write_calls = 0, written = None, world = w\<rparr>"

definition finish :: "('w, 't) env \<Rightarrow> nat option \<times> 'w proc \<Rightarrow> nat option \<times> 'w proc" where
  "finish e r = (case fst r of None \<Rightarrow> r | Some c \<Rightarrow> (exit_as e (world (snd r)) c, snd r))"

definition run_script :: "('w, 't) env \<Rightarrow> args \<Rightarrow> 'w \<Rightarrow> nat option \<times> 'w proc" where
  "run_script e a w =
     (case main e a (start w) of
        Exit c p \<Rightarrow> finish e (Some c, p)
      | Done p \<Rightarrow> (exitCode e (world p), p)
      | Throw x p \<Rightarrow> finish e (crash_handler e a x p)
      | Hang p \<Rightarrow> (None, p))"

section \<open>Notions used to state the properties\<close>

text \<open>
  A record is a JSON object. The previous content of the output file is admissible when it
  is a JSON object, or when it is absent or falsy and the template file is unavailable (the
  literal of the source is used) or holds a JSON object.
\<close>

fun is_record :: "jsval \<Rightarrow> bool" where
  "is_record (JObj ps) = True"
| "is_record v = False"












section \<open>SHA-256\<close>

unbundle bit_operations_syntax

text \<open>
  What \<^verbatim>\<open>crypto.createHash('sha256').update(data).digest('hex')\<close> computes for a string: the
  UTF-8 encoding of the string (a surrogate without its partner is encoded as U+FFFD),
  hashed as in FIPS 180-4, in lower-case hexadecimal. Words of 32 bits are integers from
  \<open>0\<close> below \<open>2^32\<close>; a rotation to the right by \<open>n\<close> bits is \<open>rot (2^n) (2^(32 - n))\<close>.
\<close>

fun utf8 :: "ustring \<Rightarrow> int list" where
  "utf8 [] = []"
| "utf8 (c # cs) =
     (if c < 128 then int c # utf8 cs
      else if c < 2048 then [192 + int c div 64, 128 + int c mod 64] @ utf8 cs
      else if 55296 \<le> c \<and> c < 56320 then
        (case cs of
           d # ds \<Rightarrow>
             if 56320 \<le> d \<and> d < 57344
             then (let p = 65536 + (int c - 55296) * 1024 + (int d - 56320)
                   in [240 + p div 262144, 128 + (p div 4096) mod 64, 128 + (p div 64) mod 64,
                       128 + p mod 64] @ utf8 ds)
             else [239, 191, 189] @ utf8 cs
         | [] \<Rightarrow> [239, 191, 189])
      else if 56320 \<le> c \<and> c < 57344 then [239, 191, 189] @ utf8 cs
      else [224 + int c div 4096, 128 + (int c div 64) mod 64, 128 + int c mod 64] @ utf8 cs)"

definition K256 :: "int list" where
  "K256 = [
   1116352408, 1899447441, 3049323471, 3921009573, 961987163, 1508970993, 2453635748, 2870763221,
   3624381080, 310598401, 607225278, 1426881987, 1925078388, 2162078206, 2614888103, 3248222580,
   3835390401, 4022224774, 264347078, 604807628, 770255983, 1249150122, 1555081692, 1996064986,
   2554220882, 2821834349, 2952996808, 3210313671, 3336571891, 3584528711, 113926993, 338241895,
   666307205, 773529912, 1294757372, 1396182291, 1695183700, 1986661051, 2177026350, 2456956037,
   2730485921, 2820302411, 3259730800, 3345764771, 3516065817, 3600352804, 4094571909, 275423344,
   430227734, 506948616, 659060556, 883997877, 958139571, 1322822218, 1537002063, 1747873779,
   1955562222, 2024104815, 2227730452, 2361852424, 2428436474, 2756734187, 3204031479, 3329325298]"

type_synonym hash_state = "int \<times> int \<times> int \<times> int \<times> int \<times> int \<times> int \<times> int"

definition H0 :: hash_state where
  "H0 = (1779033703, 3144134277, 1013904242, 2773480762, 1359893119, 2600822924, 528734635,
         1541459225)"

definition add32 :: "int \<Rightarrow> int \<Rightarrow> int" where
  "add32 x y = (x + y) mod 4294967296"

definition rot :: "int \<Rightarrow> int \<Rightarrow> int \<Rightarrow> int" where
  "rot lo hi x = x div lo + (x mod lo) * hi"

definition bsig0 :: "int \<Rightarrow> int" where
  "bsig0 x = rot 4 1073741824 x XOR rot 8192 524288 x XOR rot 4194304 1024 x"

definition bsig1 :: "int \<Rightarrow> int" where
  "bsig1 x = rot 64 67108864 x XOR rot 2048 2097152 x XOR rot 33554432 128 x"

definition ssig0 :: "int \<Rightarrow> int" where
  "ssig0 x = rot 128 33554432 x XOR rot 262144 16384 x XOR x div 8"

definition ssig1 :: "int \<Rightarrow> int" where
  "ssig1 x = rot 131072 32768 x XOR rot 524288 8192 x XOR x div 1024"

definition Ch :: "int \<Rightarrow> int \<Rightarrow> int \<Rightarrow> int" where
  "Ch x y z = (x AND y) XOR ((4294967295 - x) AND z)"

definition Maj :: "int \<Rightarrow> int \<Rightarrow> int \<Rightarrow> int" where
  "Maj x y z = (x AND y) XOR (x AND z) XOR (y AND z)"

text \<open>
  The message schedule, latest word first: \<open>schedule n ws\<close> adds \<open>n\<close> words to \<open>ws\<close>.
\<close>

fun schedule :: "nat \<Rightarrow> int list \<Rightarrow> int list" where
  "schedule 0 ws = ws"
| "schedule (Suc n) ws =
     schedule n (add32 (add32 (ssig1 (ws ! 1)) (ws ! 6)) (add32 (ssig0 (ws ! 14)) (ws ! 15)) # ws)"

definition temp1 :: "int \<Rightarrow> int \<Rightarrow> hash_state \<Rightarrow> int" where
  "temp1 k w s =
     (case s of (a, b, c, d, e, f, g, h) \<Rightarrow>
        add32 (add32 (add32 h (bsig1 e)) (add32 (Ch e f g) k)) w)"

definition temp2 :: "hash_state \<Rightarrow> int" where
  "temp2 s = (case s of (a, b, c, d, e, f, g, h) \<Rightarrow> add32 (bsig0 a) (Maj a b c))"

definition step :: "int \<Rightarrow> int \<Rightarrow> hash_state \<Rightarrow> hash_state" where
  "step t1 t2 s =
     (case s of (a, b, c, d, e, f, g, h) \<Rightarrow> (add32 t1 t2, a, b, c, add32 d t1, e, f, g))"

fun rounds :: "int list \<Rightarrow> int list \<Rightarrow> hash_state \<Rightarrow> hash_state" where
  "rounds (k # ks) (w # ws) s = rounds ks ws (step (temp1 k w s) (temp2 s) s)"
| "rounds ks ws s = s"

fun be_words :: "int list \<Rightarrow> int list" where
  "be_words (a # b # c # d # rest) = (((a * 256 + b) * 256 + c) * 256 + d) # be_words rest"
| "be_words bs = []"

definition add_state :: "hash_state \<Rightarrow> hash_state \<Rightarrow> hash_state" where
  "add_state s t =
     (case s of (a, b, c, d, e, f, g, h) \<Rightarrow>
        case t of (a', b', c', d', e', f', g', h') \<Rightarrow>
          (add32 a a', add32 b b', add32 c c', add32 d d', add32 e e', add32 f f', add32 g g',
           add32 h h'))"

definition compress :: "hash_state \<Rightarrow> int list \<Rightarrow> hash_state" where
  "compress h block =
     add_state h (rounds K256 (rev (schedule 48 (rev (be_words block)))) h)"

fun blocks :: "nat \<Rightarrow> hash_state \<Rightarrow> int list \<Rightarrow> hash_state" where
  "blocks 0 h bs = h"
| "blocks (Suc n) h bs = blocks n (compress h (take 64 bs)) (drop 64 bs)"

definition be64 :: "int \<Rightarrow> int list" where
  "be64 n = map (\<lambda>i. (n div 256 ^ (7 - i)) mod 256) [0..<8]"

definition pad :: "int list \<Rightarrow> int list" where
  "pad m = m @ [128] @ replicate ((119 - length m mod 64) mod 64) 0 @ be64 (8 * int (length m))"

definition hexdigit :: "int \<Rightarrow> nat" where
  "hexdigit d = (if d < 10 then 48 + nat d else 87 + nat d)"

definition hex32 :: "int \<Rightarrow> ustring" where
  "hex32 x = map (\<lambda>i. hexdigit ((x div 16 ^ (7 - i)) mod 16)) [0..<8]"

definition hex_state :: "hash_state \<Rightarrow> ustring" where
  "hex_state s =
     (case s of (a, b, c, d, e, f, g, h) \<Rightarrow>
        hex32 a @ hex32 b @ hex32 c @ hex32 d @ hex32 e @ hex32 f @ hex32 g @ hex32 h)"

definition sha256_hex :: "ustring \<Rightarrow> ustring" where
  "sha256_hex s = hex_state (blocks (length (pad (utf8 s)) div 64) H0 (pad (utf8 s)))"

section \<open>A concrete environment\<close>

text \<open>
  A small environment and command line, for the examples. Its digest is SHA-256; its
  evaluator rejects every text with an \<^verbatim>\<open>Error\<close> object, which stands here for its message.
\<close>

definition demo_env :: "(unit, ustring) env" where
  "demo_env =
     \<lparr>input_file = Contents (lit ''DisconSchedule.fact = {}; DisconSchedule.preset = []''),
      output_file = JNull,
      template_file = None,
      now_at = (\<lambda>n. lit ''2024-01-05T06:00:00.000Z''),
      JSON_parse = (\<lambda>t. if t = lit ''{}'' then Some (JObj [])
                          else if t = lit ''[]'' then Some (JArr [] []) else None),
      Function_eval = (\<lambda>w t. (Throws (lit ''Unexpected token''), w)),
      message_of = (\<lambda>w t. (Returns t, w)),
      exitCode = (\<lambda>w. Some 0),
      exit_as = (\<lambda>w c. Some c),
      digest_hex = sha256_hex,
      write_succeeds = (\<lambda>n. True),
      error_message = (\<lambda>x. lit ''failed'')\<rparr>"

definition demo_args :: args where
  "demo_args =
     \<lparr>arg_region = Some (lit ''kyiv''), arg_input = Some (lit ''in.html''),
      arg_output = Some (lit ''out.json''), arg_upstream = None, arg_pretty = False\<rparr>"

text \<open>
  The evaluation of five texts by the runtime, for the examples about the evaluator. The
  ambient state is the pair of \<^verbatim>\<open>process.pid\<close> and \<^verbatim>\<open>process.exitCode\<close>. A thrown value is
  \<open>null\<close>, an \<^verbatim>\<open>Error\<close> object with its message, or an object whose \<^verbatim>\<open>message\<close> is an
  accessor that throws the given value; reading the message of \<open>null\<close> throws the
  \<open>TypeError\<close> of the engine. Other texts are not covered by these examples.
\<close>

datatype thrown = ThrownNull | ErrorObject ustring | Accessor thrown

fun message_read :: "'w \<Rightarrow> thrown \<Rightarrow> (thrown, ustring) outcome \<times> 'w" where
  "message_read w ThrownNull =
     (Throws (ErrorObject (lit ''Cannot read properties of null (reading message)'')), w)"
| "message_read w (ErrorObject m) = (Returns m, w)"
| "message_read w (Accessor t) = (Throws t, w)"

definition node_eval ::
  "nat \<times> nat \<Rightarrow> ustring \<Rightarrow> (thrown, jsval) outcome \<times> (nat \<times> nat)" where
  "node_eval w body =
     (if body = lit ''\"use strict\"; return ([process.pid]);''
      then (Returns (JArr [JNum (Num (of_nat (fst w)))] []), w)
      else if body = lit ''\"use strict\"; return ([process.exitCode = 3]);''
      then (Returns (JArr [JNum (Num 3)] []), (fst w, 3))
      else if body = lit ''\"use strict\"; return ([process.exit(5)]);''
      then (Exits 5, w)
      else if body = lit ''\"use strict\"; return ([(function(){throw null})()]);''
      then (Throws ThrownNull, w)
      else if body =
        lit ''\"use strict\"; return ([(function(){throw {get message(){throw null}}})()]);''
      then (Throws (Accessor ThrownNull), w)
      else (Throws (ErrorObject (lit ''not covered'')), w))"

definition node_env :: "(nat \<times> nat, thrown) env" where
  "node_env =
     \<lparr>input_file = Missing, output_file = JNull, template_file = None,
      now_at = (\<lambda>n. lit ''2024-01-05T06:00:00.000Z''),
      JSON_parse = (\<lambda>t. None),
      Function_eval = node_eval,
      message_of = message_read,
      exitCode = (\<lambda>w. Some (snd w)),
      exit_as = (\<lambda>w c. Some c),
      digest_hex = sha256_hex,
      write_succeeds = (\<lambda>n. True),
      error_message = (\<lambda>x. lit ''failed'')\<rparr>"

section \<open>Time normalizer\<close>

text \<open>
  \<^verbatim>\<open>String(n)\<close> for an integer, \<open>pad2\<close> and \<open>formatOffset\<close>.
\<close>

fun dec :: "nat \<Rightarrow> ustring" where
  "dec n = (if n < 10 then [48 + n] else dec (n div 10) @ [48 + n mod 10])"

declare dec.simps [simp del]

definition String_of :: "int \<Rightarrow> ustring" where
  "String_of n = (if n < 0 then 45 # dec (nat (- n)) else dec (nat n))"

definition pad2 :: "int \<Rightarrow> ustring" where
  "pad2 n = (let s = String_of n in replicate (2 - length s) 48 @ s)"

definition formatOffset :: "int \<Rightarrow> ustring" where
  "formatOffset totalMinutes =
     (let sign = (if totalMinutes \<ge> 0 then lit ''+'' else lit ''-'');
          a = \<bar>totalMinutes\<bar>;
          hh = pad2 (a div 60);
          mm = pad2 (a mod 60)
      in sign @ hh @ lit '':'' @ mm)"

text \<open>
  \<^verbatim>\<open>str.split(sep).map(Number)\<close>: \<open>Number_of\<close> reads an optionally signed decimal integer
  with surrounding whitespace, the empty string as \<open>0\<close>; \<open>None\<close> stands for \<open>NaN\<close>. The
  other forms \<^verbatim>\<open>Number\<close> accepts (a fraction, an exponent, a radix prefix, \<^verbatim>\<open>Infinity\<close>) are
  outside this model. \<open>part\<close> is the destructuring of the list, a missing element being
  \<open>undefined\<close>; \<open>or_default x d\<close> is \<^verbatim>\<open>x || d\<close>.
\<close>

fun split_on :: "nat \<Rightarrow> ustring \<Rightarrow> ustring list" where
  "split_on sep [] = [[]]"
| "split_on sep (c # cs) =
     (if c = sep then [] # split_on sep cs
      else (case split_on sep cs of p # ps \<Rightarrow> (c # p) # ps | [] \<Rightarrow> [[c]]))"

fun digits_val :: "ustring \<Rightarrow> nat \<Rightarrow> nat option" where
  "digits_val [] acc = Some acc"
| "digits_val (c # cs) acc =
     (if 48 \<le> c \<and> c \<le> 57 then digits_val cs (10 * acc + (c - 48)) else None)"

definition Number_of :: "ustring \<Rightarrow> int option" where
  "Number_of s =
     (case rev (dropWhile is_space (rev (dropWhile is_space s))) of
        [] \<Rightarrow> Some 0
      | c # cs \<Rightarrow>
          if c = 45 \<and> cs \<noteq> [] then map_option (\<lambda>n. - int n) (digits_val cs 0)
          else if c = 43 \<and> cs \<noteq> [] then map_option int (digits_val cs 0)
          else map_option int (digits_val (c # cs) 0))"

definition part :: "ustring list \<Rightarrow> nat \<Rightarrow> int option" where
  "part ps i = (if i < length ps then Number_of (ps ! i) else None)"

definition or_default :: "int option \<Rightarrow> int \<Rightarrow> int" where
  "or_default x d = (case x of None \<Rightarrow> d | Some n \<Rightarrow> if n = 0 then d else n)"

text \<open>
  The calendar of \<^verbatim>\<open>Date\<close>: days since 1 January 1970 of a date of the proleptic
  Gregorian calendar and back, \<^verbatim>\<open>Date.UTC\<close> (months from 0 and carried into the year,
  years 0 to 99 taken as 1900 to 1999, \<open>None\<close> for \<open>NaN\<close>), and the UTC fields of an instant
  given in milliseconds.
\<close>

definition days_from_civil :: "int \<Rightarrow> int \<Rightarrow> int \<Rightarrow> int" where
  "days_from_civil y m d =
     (let y' = (if m \<le> 2 then y - 1 else y);
          era = y' div 400;
          yoe = y' - era * 400;
          mp = (m + 9) mod 12;
          doy = (153 * mp + 2) div 5 + d - 1;
          doe = yoe * 365 + yoe div 4 - yoe div 100 + doy
      in era * 146097 + doe - 719468)"

definition civil_from_days :: "int \<Rightarrow> int \<times> int \<times> int" where
  "civil_from_days z0 =
     (let z = z0 + 719468;
          era = z div 146097;
          doe = z - era * 146097;
          yoe = (doe - doe div 1460 + doe div 36524 - doe div 146096) div 365;
          doy = doe - (365 * yoe + yoe div 4 - yoe div 100);
          mp = (5 * doy + 2) div 153;
          d = doy - (153 * mp + 2) div 5 + 1;
          m = (if mp < 10 then mp + 3 else mp - 9);
          y = yoe + era * 400
      in (if m \<le> 2 then y + 1 else y, m, d))"

definition Date_UTC :: "int option \<Rightarrow> int \<Rightarrow> int \<Rightarrow> int \<Rightarrow> int \<Rightarrow> int \<Rightarrow> int option" where
  "Date_UTC year month date hours minutes seconds =
     (case year of
        None \<Rightarrow> None
      | Some y \<Rightarrow>
          (let yr = (if 0 \<le> y \<and> y \<le> 99 then 1900 + y else y);
               ym = yr + month div 12;
               mn = month mod 12;
               day = days_from_civil ym (mn + 1) 1 + date - 1;
               t = day * 86400000 + hours * 3600000 + minutes * 60000 + seconds * 1000
           in if \<bar>t\<bar> \<le> 8640000000000000 then Some t else None))"

definition getUTC :: "int \<Rightarrow> (int \<times> int \<times> int) \<times> (int \<times> int \<times> int)" where
  "getUTC t =
     (let day = t div 86400000; r = t mod 86400000
      in (civil_from_days day, (r div 3600000, (r mod 3600000) div 60000, (r mod 60000) div 1000)))"

text \<open>
  \<open>tzOffsetMinutes\<close> asks \<^verbatim>\<open>Intl.DateTimeFormat\<close> for the wall clock of the zone at the
  instant and subtracts the instant: for an instant on a whole minute, the UTC offset of the
  zone at that instant, in minutes. The time zone data is the parameter \<open>zone\<close>; offsets that
  are not whole minutes (local mean times) are outside this model.
\<close>

definition tzOffsetMinutes :: "(int \<Rightarrow> int) \<Rightarrow> int \<Rightarrow> int" where
  "tzOffsetMinutes zone utcTs = zone utcTs"

definition zonedTimeToUtc :: "(int \<Rightarrow> int) \<Rightarrow> ustring \<Rightarrow> ustring \<Rightarrow> int option" where
  "zonedTimeToUtc zone dateStr timeStr =
     (let ds = split_on 45 dateStr; ts = split_on 58 timeStr
      in case Date_UTC (part ds 0) (or_default (part ds 1) 1 - 1) (or_default (part ds 2) 1)
                (or_default (part ts 0) 0) (or_default (part ts 1) 0) 0 of
           None \<Rightarrow> None
         | Some t \<Rightarrow>
             (let off = tzOffsetMinutes zone t; t' = t - off * 60000
              in if \<bar>t'\<bar> \<le> 8640000000000000 then Some t' else None))"

text \<open>
  \<open>toKyivIso\<close>; formatting an invalid \<^verbatim>\<open>Date\<close> raises \<open>RangeError\<close>.
\<close>

datatype range_error = RangeError

definition toKyivIso :: "(int \<Rightarrow> int) \<Rightarrow> ustring \<Rightarrow> ustring \<Rightarrow> range_error + ustring" where
  "toKyivIso zone dateStr timeStr =
     (case zonedTimeToUtc zone dateStr timeStr of
        None \<Rightarrow> Inl RangeError
      | Some utcDate \<Rightarrow>
          (let off = tzOffsetMinutes zone utcDate;
               ((Y, M, D), (h, m, s)) = getUTC utcDate;
               offsetStr = formatOffset off
           in Inr (String_of Y @ lit ''-'' @ pad2 M @ lit ''-'' @ pad2 D @ lit ''T'' @ pad2 h
                   @ lit '':'' @ pad2 m @ lit '':'' @ pad2 s @ offsetStr)))"


text \<open>
  For claim C5, following the words of the specification: \<open>iso_instant\<close> is the instant
  that a timestamp \<^verbatim>\<open>YYYY-MM-DDTHH:MM:SS+HH:MM\<close> denotes (its date and time are local
  to the offset), and \<open>wall_clock zone t\<close> is the local date and time of the zone at the
  instant \<open>t\<close>. \<open>eet\<close> is Eastern European Time, the offset of Europe/Kyiv outside daylight
  saving time, as on 5 January 2024.
\<close>

definition eet :: "int \<Rightarrow> int" where
  "eet t = 120"

definition wall_clock :: "(int \<Rightarrow> int) \<Rightarrow> int \<Rightarrow> (int \<times> int \<times> int) \<times> (int \<times> int \<times> int)" where
  "wall_clock zone t = getUTC (t + zone t * 60000)"

definition iso_instant :: "ustring \<Rightarrow> int option" where
  "iso_instant s =
     (let n = length s;
          date = take (n - 15) s;
          k = length date;
          year = Number_of (take (k - 6) date);
          month = Number_of (take 2 (drop (k - 5) date));
          day = Number_of (drop (k - 2) date);
          hours = Number_of (take 2 (drop (n - 14) s));
          minutes = Number_of (take 2 (drop (n - 11) s));
          seconds = Number_of (take 2 (drop (n - 8) s));
          sign = (if take 1 (drop (n - 6) s) = lit ''-'' then - 1 else 1);
          oh = Number_of (take 2 (drop (n - 5) s));
          om = Number_of (drop (n - 2) s)
      in case (year, month, day, hours, minutes, seconds, oh, om) of
           (Some Y, Some M, Some D, Some h, Some m, Some sec, Some a, Some b) \<Rightarrow>
             Some ((days_from_civil Y M D) * 86400000 + h * 3600000 + m * 60000 + sec * 1000
                   - sign * (a * 60 + b) * 60000)
         | _ \<Rightarrow> None)"

section \<open>Task scheduler of batch_render.mjs\<close>

text \<open>
  The source holds two variants of the batch script: one that starts the single renderer as
  a subprocess per group, and one that builds a list of tasks and runs them on a shared
  browser. Both read the data files the same way.

  \<open>is_gpv\<close> is the test \<^verbatim>\<open>/^GPV\d+\.\d+$/i\<close>.
\<close>

definition is_digit :: "nat \<Rightarrow> bool" where
  "is_digit c \<longleftrightarrow> 48 \<le> c \<and> c \<le> 57"

definition is_gpv :: "ustring \<Rightarrow> bool" where
  "is_gpv k =
     (case k of
        g # p # v # rest \<Rightarrow>
          (g = 71 \<or> g = 103) \<and> (p = 80 \<or> p = 112) \<and> (v = 86 \<or> v = 118) \<and>
          takeWhile is_digit rest \<noteq> [] \<and>
          (case dropWhile is_digit rest of
             dot # minor \<Rightarrow> dot = 46 \<and> minor \<noteq> [] \<and> list_all is_digit minor
           | [] \<Rightarrow> False)
      | _ \<Rightarrow> False)"

text \<open>
  The named own properties of a value, each once, in insertion order. Indices of arrays and
  strings, and integer-like names (which JavaScript lists first), consist of digits only, so
  they never pass \<open>is_gpv\<close> and do not change the order of the names that do.
\<close>

fun own_keys :: "(ustring \<times> jsval) list \<Rightarrow> ustring list" where
  "own_keys [] = []"
| "own_keys (p # ps) = fst p # filter (\<lambda>k. k \<noteq> fst p) (own_keys ps)"

fun named_keys :: "jsval \<Rightarrow> ustring list" where
  "named_keys (JObj ps) = own_keys ps"
| "named_keys (JArr xs ps) = own_keys ps"
| "named_keys v = []"

text \<open>
  \<^verbatim>\<open>Array.prototype.sort\<close> with the comparator of the source, whose collation
  (\<^verbatim>\<open>localeCompare\<close> with numeric ordering) is the parameter \<open>le\<close>: a stable sort, written as
  insertion sort.
\<close>

fun insert_by :: "('a \<Rightarrow> 'a \<Rightarrow> bool) \<Rightarrow> 'a \<Rightarrow> 'a list \<Rightarrow> 'a list" where
  "insert_by le x [] = [x]"
| "insert_by le x (y # ys) = (if le x y then x # y # ys else y # insert_by le x ys)"

definition sort_by :: "('a \<Rightarrow> 'a \<Rightarrow> bool) \<Rightarrow> 'a list \<Rightarrow> 'a list" where
  "sort_by le xs = foldr (insert_by le) xs []"

text \<open>\<^verbatim>\<open>String.prototype.trim\<close> and \<open>normalizeRegionId\<close>.\<close>

definition trim :: "ustring \<Rightarrow> ustring" where
  "trim s = rev (dropWhile is_space (rev (dropWhile is_space s)))"

definition normalizeRegionId :: "jsval \<Rightarrow> ustring \<Rightarrow> ustring" where
  "normalizeRegionId json fileStem =
     (case (if truthy json then get_prop json (lit ''regionId'') else JUndef) of
        JStr s \<Rightarrow> (if trim s \<noteq> [] then trim s else fileStem)
      | _ \<Rightarrow> fileStem)"

text \<open>
  \<open>gpvToFileName\<close>, with its fallback for a key that does not match, and the renaming
  \<^verbatim>\<open>base.replace(/\.png$/i, suffix)\<close>.
\<close>

definition is_alnum :: "nat \<Rightarrow> bool" where
  "is_alnum c \<longleftrightarrow> is_digit c \<or> (65 \<le> c \<and> c \<le> 90) \<or> (97 \<le> c \<and> c \<le> 122)"

definition lower :: "nat \<Rightarrow> nat" where
  "lower c = (if 65 \<le> c \<and> c \<le> 90 then c + 32 else c)"

fun sanitize :: "ustring \<Rightarrow> bool \<Rightarrow> ustring" where
  "sanitize [] in_run = []"
| "sanitize (c # cs) in_run =
     (if is_alnum c then lower c # sanitize cs False
      else if in_run then sanitize cs True
      else 45 # sanitize cs True)"

definition gpvToFileName :: "ustring \<Rightarrow> ustring" where
  "gpvToFileName gpvKey =
     (if \<not> is_gpv gpvKey then lit ''gpv-'' @ sanitize gpvKey False @ lit ''.png''
      else (let rest = drop 3 gpvKey
            in lit ''gpv-'' @ takeWhile is_digit rest @ lit ''-''
               @ drop 1 (dropWhile is_digit rest) @ lit ''.png''))"

definition replace_png :: "ustring \<Rightarrow> ustring \<Rightarrow> ustring" where
  "replace_png base suffix =
     (if map lower (drop (length base - 4) base) = lit ''.png'' \<and> 4 \<le> length base
      then take (length base - 4) base @ suffix
      else base)"

text \<open>
  A render task: the template, the region, the data file, the group and the day when the
  task has one, and the name of the image in the directory of the region.
\<close>

datatype template = Full | Emergency | Week | Summary | Groups

record task =
  t_template :: template
  t_region :: ustring
  t_json :: ustring
  t_gpv :: "ustring option"
  t_day :: "ustring option"
  t_out :: ustring

text \<open>
  A data file: its path, its stem, and its decoded content, \<open>None\<close> when reading or
  decoding raises.
\<close>

record datafile =
  f_path :: ustring
  f_stem :: ustring
  f_json :: "jsval option"

text \<open>The warnings the scripts print while they read the data files.\<close>

datatype warning = NoGroups ustring | Failed ustring | NoFiles

text \<open>
  The test \<^verbatim>\<open>!json || typeof json !== 'object' || !json.preset || !json.fact\<close>, negated, and
  the \<^verbatim>\<open>--region\<close> filter; \<open>onlyRegion\<close> is \<^verbatim>\<open>args.region || null\<close>.
\<close>

definition eligible :: "jsval \<Rightarrow> bool" where
  "eligible json \<longleftrightarrow>
     truthy json \<and> is_object json \<and> truthy (get_prop json (lit ''preset''))
     \<and> truthy (get_prop json (lit ''fact''))"

definition filtered_out :: "jsval \<Rightarrow> ustring \<Rightarrow> ustring \<Rightarrow> bool" where
  "filtered_out onlyRegion regionId fileStem \<longleftrightarrow>
     truthy onlyRegion \<and> onlyRegion \<noteq> JStr regionId \<and> onlyRegion \<noteq> JStr fileStem"

text \<open>The group keys: the matching keys of \<^verbatim>\<open>json.preset.data\<close>, sorted.\<close>

definition gpvKeys_of :: "(ustring \<Rightarrow> ustring \<Rightarrow> bool) \<Rightarrow> jsval \<Rightarrow> ustring list" where
  "gpvKeys_of le json =
     (let presetData = js_or (get_prop (get_prop json (lit ''preset'')) (lit ''data'')) (JObj [])
      in sort_by le (filter is_gpv (named_keys presetData)))"

text \<open>
  The tasks pushed for one group and the two pushed for the region, in the order of the
  source; \<open>prepare_tasks\<close> is the body of the loop over the data files (shared-browser
  variant), with the warnings it prints.
\<close>

definition group_tasks :: "datafile \<Rightarrow> ustring \<Rightarrow> ustring \<Rightarrow> task list" where
  "group_tasks f regionId gpv =
     (let baseName = gpvToFileName gpv
      in [\<lparr>t_template = Full, t_region = regionId, t_json = f_path f, t_gpv = Some gpv,
            t_day = None, t_out = baseName\<rparr>,
          \<lparr>t_template = Emergency, t_region = regionId, t_json = f_path f, t_gpv = Some gpv,
            t_day = None, t_out = replace_png baseName (lit ''-emergency.png'')\<rparr>,
          \<lparr>t_template = Week, t_region = regionId, t_json = f_path f, t_gpv = Some gpv,
            t_day = None, t_out = replace_png baseName (lit ''-week.png'')\<rparr>,
          \<lparr>t_template = Summary, t_region = regionId, t_json = f_path f, t_gpv = Some gpv,
            t_day = None, t_out = replace_png baseName (lit ''-summary.png'')\<rparr>])"

definition region_tasks :: "datafile \<Rightarrow> ustring \<Rightarrow> task list" where
  "region_tasks f regionId =
     [\<lparr>t_template = Groups, t_region = regionId, t_json = f_path f, t_gpv = None,
        t_day = None, t_out = lit ''gpv-all-today.png''\<rparr>,
      \<lparr>t_template = Groups, t_region = regionId, t_json = f_path f, t_gpv = None,
        t_day = Some (lit ''tomorrow''), t_out = lit ''gpv-all-tomorrow.png''\<rparr>]"

definition prepare_tasks ::
  "(ustring \<Rightarrow> ustring \<Rightarrow> bool) \<Rightarrow> jsval \<Rightarrow> datafile \<Rightarrow> task list \<times> warning list" where
  "prepare_tasks le onlyRegion f =
     (case f_json f of
        None \<Rightarrow> ([], [Failed (f_path f)])
      | Some json \<Rightarrow>
          if \<not> eligible json then ([], [])
          else (let regionId = normalizeRegionId json (f_stem f)
                in if filtered_out onlyRegion regionId (f_stem f) then ([], [])
                   else (let gpvKeys = gpvKeys_of le json
                         in if gpvKeys = [] then ([], [NoGroups (f_path f)])
                            else (concat (map (group_tasks f regionId) gpvKeys)
                                    @ region_tasks f regionId, []))))"

text \<open>
  The whole script: missing templates end it with code 1, no data files with code 0;
  otherwise every task runs, \<open>renders t\<close> telling whether task \<open>t\<close> succeeds, and the exit
  code is 1 exactly when a task failed. Tasks do not interact, so the order in which the
  limiter runs them does not change the counts.
\<close>

record summary =
  exit_code :: nat
  total :: nat
  ok :: nat
  failed :: nat
  warnings :: "warning list"

definition batch_render ::
  "bool \<Rightarrow> (ustring \<Rightarrow> ustring \<Rightarrow> bool) \<Rightarrow> jsval \<Rightarrow> (task \<Rightarrow> bool) \<Rightarrow> datafile list \<Rightarrow> summary" where
  "batch_render templates_present le onlyRegion renders jsonFiles =
     (if \<not> templates_present
      then \<lparr>exit_code = 1, total = 0, ok = 0, failed = 0, warnings = []\<rparr>
      else if jsonFiles = []
      then \<lparr>exit_code = 0, total = 0, ok = 0, failed = 0, warnings = [NoFiles]\<rparr>
      else (let prepared = map (prepare_tasks le onlyRegion) jsonFiles;
                tasks = concat (map fst prepared);
                failed = length (filter (\<lambda>t. \<not> renders t) tasks)
            in \<lparr>exit_code = (if failed > 0 then 1 else 0),
                total = length tasks,
                ok = length (filter renders tasks),
                failed = failed,
                warnings = concat (map snd prepared)\<rparr>))"


text \<open>
  The subprocess variant: one render per group key, counted as it finishes.
\<close>

definition prepare_renders ::
  "(ustring \<Rightarrow> ustring \<Rightarrow> bool) \<Rightarrow> jsval \<Rightarrow> datafile \<Rightarrow> task list \<times> warning list" where
  "prepare_renders le onlyRegion f =
     (case f_json f of
        None \<Rightarrow> ([], [Failed (f_path f)])
      | Some json \<Rightarrow>
          if \<not> eligible json then ([], [])
          else (let regionId = normalizeRegionId json (f_stem f)
                in if filtered_out onlyRegion regionId (f_stem f) then ([], [])
                   else (let gpvKeys = gpvKeys_of le json
                         in if gpvKeys = [] then ([], [NoGroups (f_path f)])
                            else (map (\<lambda>gpv. \<lparr>t_template = Full, t_region = regionId,
                                        t_json = f_path f, t_gpv = Some gpv, t_day = None,
                                        t_out = gpvToFileName gpv\<rparr>) gpvKeys, []))))"

definition batch_render_subprocess ::
  "bool \<Rightarrow> (ustring \<Rightarrow> ustring \<Rightarrow> bool) \<Rightarrow> jsval \<Rightarrow> (task \<Rightarrow> bool) \<Rightarrow> datafile list \<Rightarrow> summary" where
  "batch_render_subprocess templates_present le onlyRegion renders jsonFiles =
     (if \<not> templates_present
      then \<lparr>exit_code = 1, total = 0, ok = 0, failed = 0, warnings = []\<rparr>
      else if jsonFiles = []
      then \<lparr>exit_code = 0, total = 0, ok = 0, failed = 0, warnings = [NoFiles]\<rparr>
      else (let prepared = map (prepare_renders le onlyRegion) jsonFiles;
                tasks = concat (map fst prepared);
                failed = length (filter (\<lambda>t. \<not> renders t) tasks)
            in \<lparr>exit_code = (if failed > 0 then 1 else 0),
                total = length tasks,
                ok = length (filter renders tasks),
                failed = failed,
                warnings = concat (map snd prepared)\<rparr>))"

definition demo_file :: "jsval \<Rightarrow> datafile" where
  "demo_file json = \<lparr>f_path = lit ''data/kyiv.json'', f_stem = lit ''kyiv'', f_json = Some json\<rparr>"

section \<open>Properties of the balanced extractor\<close>

lemma run_Nil [simp]: "run d [] = d"
  by (simp add: run_def)

lemma run_Cons [simp]: "run d (c # s) = run (count_step c d) s"
  by (simp add: run_def)

lemma run_append: "run d (s @ t) = run (run d s) t"
  by (simp add: run_def)

lemma counters_run: "counters s = run (0, 0) s"
  by (simp add: counters_def run_def)

lemma count_step_plain: "\<not> is_delim c \<Longrightarrow> count_step c d = d"
  by (simp add: count_step_def is_delim_def)

lemma scan_first_zero:
  "scan s i d = Some e \<Longrightarrow>
     i \<le> e \<and> e - i < length s \<and> run d (take (Suc (e - i)) s) = (0, 0) \<and>
     (\<forall>k. 0 < k \<and> k \<le> e - i \<longrightarrow> run d (take k s) \<noteq> (0, 0))"
proof (induction s arbitrary: i d)
  case Nil
  then show ?case by simp
next
  case (Cons ch rest)
  let ?d = "count_step ch d"
  show ?case
  proof (cases "fst ?d = 0 \<and> snd ?d = 0")
    case True
    with Cons.prems have "e = i" by (simp add: Let_def)
    with True show ?thesis by (auto simp: prod_eq_iff)
  next
    case False
    with Cons.prems have rec: "scan rest (Suc i) ?d = Some e" by (simp add: Let_def)
    from Cons.IH [OF rec] have ih: "Suc i \<le> e" "e - Suc i < length rest"
      "run ?d (take (Suc (e - Suc i)) rest) = (0, 0)"
      "\<forall>k. 0 < k \<and> k \<le> e - Suc i \<longrightarrow> run ?d (take k rest) \<noteq> (0, 0)"
      by simp_all
    from ih(1) have eq: "e - i = Suc (e - Suc i)" by simp
    have "\<forall>k. 0 < k \<and> k \<le> e - i \<longrightarrow> run d (take k (ch # rest)) \<noteq> (0, 0)"
    proof (intro allI impI)
      fix k assume k: "0 < k \<and> k \<le> e - i"
      then obtain j where j: "k = Suc j" by (cases k) auto
      show "run d (take k (ch # rest)) \<noteq> (0, 0)"
      proof (cases j)
        case 0
        with j False show ?thesis by (simp add: prod_eq_iff)
      next
        case (Suc j')
        with j k eq have "0 < j \<and> j \<le> e - Suc i" by simp
        with ih(4) j show ?thesis by simp
      qed
    qed
    with ih eq show ?thesis by simp
  qed
qed

lemma scan_nested:
  "nested u \<Longrightarrow> 0 \<le> fst d \<Longrightarrow> 0 \<le> snd d \<Longrightarrow> d \<noteq> (0, 0) \<Longrightarrow>
   scan (u @ rest) i d = scan rest (i + length u) d"
proof (induction u arbitrary: d i rest rule: nested.induct)
  case nested_Nil
  then show ?case by simp
next
  case (nested_plain c)
  then show ?case by (auto simp: count_step_plain prod_eq_iff)
next
  case (nested_curly u)
  let ?d = "(fst d + 1, snd d)"
  have a: "count_step LBRACE d = ?d" by (simp add: count_step_def)
  have b: "count_step RBRACE ?d = d"
    by (simp add: count_step_def LBRACE_def RBRACE_def)
  have nz: "fst d + 1 \<noteq> 0" using nested_curly.prems by simp
  have "scan ((LBRACE # u @ [RBRACE]) @ rest) i d = scan (u @ RBRACE # rest) (Suc i) ?d"
    by (simp add: a nz)
  also have "\<dots> = scan (RBRACE # rest) (Suc i + length u) ?d"
    using nested_curly.prems by (intro nested_curly.IH) auto
  also have "\<dots> = scan rest (i + length (LBRACE # u @ [RBRACE])) d"
    using nested_curly.prems by (auto simp: b prod_eq_iff)
  finally show ?case .
next
  case (nested_square u)
  let ?d = "(fst d, snd d + 1)"
  have a: "count_step LBRACK d = ?d"
    by (simp add: count_step_def LBRACE_def RBRACE_def LBRACK_def)
  have b: "count_step RBRACK ?d = d"
    by (simp add: count_step_def LBRACE_def RBRACE_def LBRACK_def RBRACK_def)
  have nz: "snd d + 1 \<noteq> 0" using nested_square.prems by simp
  have "scan ((LBRACK # u @ [RBRACK]) @ rest) i d = scan (u @ RBRACK # rest) (Suc i) ?d"
    by (simp add: a nz)
  also have "\<dots> = scan (RBRACK # rest) (Suc i + length u) ?d"
    using nested_square.prems by (intro nested_square.IH) auto
  also have "\<dots> = scan rest (i + length (LBRACK # u @ [RBRACK])) d"
    using nested_square.prems by (auto simp: b prod_eq_iff)
  finally show ?case .
next
  case (nested_append u v)
  then show ?case by (simp add: add.assoc)
qed

lemma skip_space_spaces:
  "list_all is_space ws \<Longrightarrow> \<not> is_space c \<Longrightarrow> skip_space (ws @ c # r) i = i + length ws"
  by (induction ws arbitrary: i) auto

lemma opener_not_space: "\<not> is_space LBRACE" "\<not> is_space LBRACK"
  by (simp_all add: is_space_def LBRACE_def LBRACK_def)

lemma scan_group:
  assumes "(opener, closer) = (LBRACE, RBRACE) \<or> (opener, closer) = (LBRACK, RBRACK)"
    and "nested u"
  shows "scan (opener # u @ closer # rest) i (0, 0) = Some (i + length u + 1)"
proof -
  from assms(1) obtain d where d: "count_step opener (0, 0) = d" "0 \<le> fst d" "0 \<le> snd d"
    "d \<noteq> (0, 0)" "count_step closer d = (0, 0)"
    by (auto simp: count_step_def LBRACE_def RBRACE_def LBRACK_def RBRACK_def)
  have nz: "\<not> (fst d = 0 \<and> snd d = 0)"
    using d(4) by (auto simp: prod_eq_iff)
  have "scan (opener # u @ closer # rest) i (0, 0) = scan (u @ closer # rest) (Suc i) d"
    by (simp add: d(1) nz)
  also have "\<dots> = scan (closer # rest) (Suc i + length u) d"
    using assms(2) d by (intro scan_nested) auto
  also have "\<dots> = Some (i + length u + 1)"
    by (simp add: d(5))
  finally show ?thesis .
qed

text \<open>
  Claim C3. Let the first occurrence of the marker be followed, after whitespace \<open>ws\<close>, by an
  opener, a correctly nested text \<open>u\<close> and the matching closer. Then \<open>extractDisconObject\<close>
  returns exactly the text from the opener to that closer together with its two offsets; this
  text is the slice of the input between the offsets, its first and last characters are the
  opener and its matching closer, and reading it from \<open>(0, 0)\<close> the two counters are both
  zero after the whole text and after no shorter non-empty prefix.
\<close>

theorem extract_nested:
  assumes idx: "indexOf html (marker_of key) = Some idx"
    and rest: "drop (idx + length (marker_of key)) html = ws @ opener # u @ closer # rest"
    and ws: "list_all is_space ws"
    and pair: "(opener, closer) = (LBRACE, RBRACE) \<or> (opener, closer) = (LBRACK, RBRACK)"
    and u: "nested u"
  shows "extractDisconObject html key =
           Extracted (opener # u @ [closer])
             (idx + length (marker_of key) + length ws)
             (idx + length (marker_of key) + length ws + length u + 2)
         \<and> slice html (idx + length (marker_of key) + length ws)
             (idx + length (marker_of key) + length ws + length u + 2) = opener # u @ [closer]
         \<and> hd (opener # u @ [closer]) = opener \<and> last (opener # u @ [closer]) = closer
         \<and> counters (opener # u @ [closer]) = (0, 0)
         \<and> (\<forall>k. 0 < k \<and> k < length (opener # u @ [closer]) \<longrightarrow>
               counters (take k (opener # u @ [closer])) \<noteq> (0, 0))"
proof -
  let ?n = "idx + length (marker_of key)"
  let ?i = "?n + length ws"
  let ?lit = "opener # u @ [closer]"
  from pair have nsp: "\<not> is_space opener" using opener_not_space by auto
  have skip: "skip_space (drop ?n html) ?n = ?i"
    using skip_space_spaces [OF ws nsp] rest by simp
  have "drop ?i html = drop (length ws) (drop ?n html)" by (simp add: add.commute)
  with rest have dr: "drop ?i html = opener # u @ closer # rest" by simp
  then have lt: "?i < length html" by (cases "?i < length html") auto
  from dr have op: "html ! ?i = opener" by (rule nth_via_drop)
  from pair op have isop: "html ! ?i = LBRACE \<or> html ! ?i = LBRACK" by auto
  have sc: "scan (drop ?i html) ?i (0, 0) = Some (?i + length u + 1)"
    unfolding dr using pair u by (rule scan_group)
  have sl: "slice html ?i (?i + length u + 2) = ?lit"
    by (simp add: slice_def dr)
  have ex: "extractDisconObject html key = Extracted ?lit ?i (?i + length u + 2)"
    using idx skip lt isop sc sl by (simp add: extractDisconObject_def Let_def)
  note sc' = scan_group [OF pair u, of "[]" 0]
  from scan_first_zero [OF sc']
  have z: "run (0, 0) ?lit = (0, 0)"
    and nz: "\<forall>k. 0 < k \<and> k \<le> length u + 1 \<longrightarrow> run (0, 0) (take k ?lit) \<noteq> (0, 0)"
    by simp_all
  have "\<forall>k. 0 < k \<and> k < length ?lit \<longrightarrow> counters (take k ?lit) \<noteq> (0, 0)"
    using nz by (simp add: counters_run)
  with ex sl z show ?thesis by (simp add: counters_run)
qed

theorem extract_nested_witness:
  "indexOf (lit ''var DisconSchedule.fact = {[]};'') (marker_of (lit ''fact'')) = Some 4
   \<and> list_all is_space (lit '' '') \<and> nested (lit ''[]'')
   \<and> extractDisconObject (lit ''var DisconSchedule.fact = {[]};'') (lit ''fact'') =
       Extracted (lit ''{[]}'') 26 30
   \<and> counters (lit ''{[]}'') = (0, 0)
   \<and> counters (lit ''{'') \<noteq> (0, 0) \<and> counters (lit ''{['') \<noteq> (0, 0)
   \<and> counters (lit ''{[]'') \<noteq> (0, 0)"
proof -
  let ?html = "lit ''var DisconSchedule.fact = {[]};''"
  have h1: "indexOf ?html (marker_of (lit ''fact'')) = Some 4"
    by (simp add: lit_def marker_of_def indexOf_def startsWith_def)
  have h2: "drop (4 + length (marker_of (lit ''fact''))) ?html =
      lit '' '' @ LBRACE # lit ''[]'' @ RBRACE # lit '';''"
    by (simp add: lit_def marker_of_def LBRACE_def RBRACE_def)
  have h3: "list_all is_space (lit '' '')"
    by (simp add: lit_def is_space_def)
  have h4: "(LBRACE, RBRACE) = (LBRACE, RBRACE) \<or> (LBRACE, RBRACE) = (LBRACK, RBRACK)"
    by simp
  have h5: "nested (lit ''[]'')"
    using nested_square [OF nested_Nil] by (simp add: lit_def LBRACK_def RBRACK_def)
  have h6: "counters (lit ''{'') \<noteq> (0, 0) \<and> counters (lit ''{['') \<noteq> (0, 0)
      \<and> counters (lit ''{[]'') \<noteq> (0, 0)"
    by (simp add: lit_def counters_def count_step_def LBRACE_def RBRACE_def LBRACK_def
        RBRACK_def)
  from extract_nested [OF h1 h2 h3 h4 h5] h1 h3 h5 h6 show ?thesis
    by (simp add: lit_def marker_of_def LBRACE_def RBRACE_def)
qed

section \<open>Properties of the numbers\<close>

lemma binade_shape:
  "0 < p \<Longrightarrow> \<exists>j\<le>n. binade n p a = p * 2 ^ j \<and> (j = 0 \<or> p * 2 ^ j \<le> a)"
proof (induction n arbitrary: p)
  case 0
  then show ?case by simp
next
  case (Suc n)
  show ?case
  proof (cases "2 * p \<le> a")
    case True
    from Suc.prems have "0 < 2 * p" by simp
    from Suc.IH [OF this] obtain j where j: "j \<le> n" "binade n (2 * p) a = 2 * p * 2 ^ j"
      "j = 0 \<or> 2 * p * 2 ^ j \<le> a" by blast
    with True have "Suc j \<le> Suc n \<and> binade (Suc n) p a = p * 2 ^ Suc j \<and> p * 2 ^ Suc j \<le> a"
      by auto
    then show ?thesis by blast
  next
    case False
    then have "binade (Suc n) p a = p * 2 ^ 0" by simp
    then show ?thesis by blast
  qed
qed

lemma binade_eq:
  "0 < p \<Longrightarrow> p * 2 ^ j \<le> a \<Longrightarrow> a < p * 2 ^ Suc j \<Longrightarrow> j \<le> n \<Longrightarrow> binade n p a = p * 2 ^ j"
proof (induction n arbitrary: p j)
  case 0
  then show ?case by simp
next
  case (Suc n)
  show ?case
  proof (cases j)
    case 0
    with Suc.prems show ?thesis by simp
  next
    case (Suc k)
    have "1 \<le> (2::rat) ^ k" by simp
    with Suc.prems(1) have "p * 1 \<le> p * 2 ^ k"
      by (intro mult_left_mono) simp_all
    with Suc.prems(2) Suc have "2 * p \<le> a" by simp
    moreover from Suc.prems Suc have "binade n (2 * p) a = 2 * p * 2 ^ k"
      by (intro Suc.IH) (simp_all add: mult.assoc)
    ultimately show ?thesis using Suc by simp
  qed
qed

lemma min_normal_facts:
  "0 < min_normal"
  "min_normal * 2 ^ 1075 = 2 ^ 53"
  "min_normal / 2 ^ 52 * 2 ^ 1074 = 1"
  by (simp_all add: min_normal_def)

lemma round_half_even_int [simp]: "round_half_even (of_int k) = k"
  by (simp add: round_half_even_def)

text \<open>A rational that is a multiple of the spacing at its magnitude is a double.\<close>

lemma to_double_exact:
  assumes "x / ulp \<bar>x\<bar> = of_int k" and "ulp \<bar>x\<bar> \<noteq> 0" and "\<bar>x\<bar> < 2 ^ 1024"
  shows "to_double x = Num x"
proof -
  from assms(1,2) have r: "of_int k * ulp \<bar>x\<bar> = x"
    by (simp add: field_simps)
  from assms(3) have "x < 2 ^ 1024" "- (2 ^ 1024) < x"
    by (simp_all add: abs_less_iff)
  then have "\<not> 2 ^ 1024 \<le> x" "\<not> x \<le> - (2 ^ 1024)" by simp_all
  then show ?thesis
    unfolding to_double_def Let_def assms(1) round_half_even_int r by (simp only: if_False)
qed

lemma ulp_below:
  assumes "a < 2 ^ 53"
  shows "\<exists>m. ulp a * 2 ^ m = 1"
proof -
  from binade_shape [OF min_normal_facts(1), of 2045 a] obtain j where
    j: "binade 2045 min_normal a = min_normal * 2 ^ j" "j = 0 \<or> min_normal * 2 ^ j \<le> a"
    by auto
  have "j < 1075"
  proof (rule ccontr)
    assume "\<not> j < 1075"
    then have le: "1075 \<le> j" by simp
    with j(2) have "min_normal * 2 ^ j \<le> a" by auto
    moreover from le have "(2::rat) ^ 1075 \<le> 2 ^ j"
      by (intro power_increasing) simp_all
    then have "min_normal * 2 ^ 1075 \<le> min_normal * 2 ^ j"
      using min_normal_facts(1) by (intro mult_left_mono) simp_all
    ultimately have "min_normal * 2 ^ 1075 \<le> a" by (rule order_trans [rotated])
    with assms show False unfolding min_normal_facts(2) by simp
  qed
  then have "j + (1074 - j) = 1074" by simp
  then have "(2::rat) ^ j * 2 ^ (1074 - j) = 2 ^ 1074"
    by (simp only: power_add [symmetric])
  then have "ulp a * 2 ^ (1074 - j) = min_normal / 2 ^ 52 * 2 ^ 1074"
    unfolding ulp_def j(1) by (simp only: times_divide_eq_left mult.assoc)
  then show ?thesis unfolding min_normal_facts(3) ..
qed

text \<open>The integers of magnitude up to \<open>2^53\<close> are doubles.\<close>

lemma to_double_int:
  assumes "\<bar>n\<bar> \<le> 2 ^ 53"
  shows "to_double (of_int n) = Num (of_int n)"
proof (cases "\<bar>n\<bar> = 2 ^ 53")
  case True
  then have a: "\<bar>of_int n :: rat\<bar> = 2 ^ 53"
    by (metis of_int_abs of_int_numeral of_int_power)
  have "binade 2045 min_normal (2 ^ 53) = min_normal * 2 ^ 1075"
    by (rule binade_eq) (simp_all add: min_normal_def)
  then have u: "ulp \<bar>of_int n :: rat\<bar> = 2"
    unfolding a ulp_def by (simp add: min_normal_def)
  from a have "(of_int n :: rat) = 2 ^ 53 \<or> (of_int n :: rat) = - (2 ^ 53)"
    by (simp add: abs_if split: if_splits)
  then have "\<exists>k. (of_int n :: rat) / 2 = of_int k"
  proof
    assume "(of_int n :: rat) = 2 ^ 53"
    then have "(of_int n :: rat) / 2 = of_int (2 ^ 52)" by simp
    then show ?thesis ..
  next
    assume "(of_int n :: rat) = - (2 ^ 53)"
    then have "(of_int n :: rat) / 2 = of_int (- (2 ^ 52))" by simp
    then show ?thesis ..
  qed
  then obtain k where "(of_int n :: rat) / ulp \<bar>of_int n\<bar> = of_int k"
    unfolding u ..
  moreover have "ulp \<bar>of_int n :: rat\<bar> \<noteq> 0" unfolding u by simp
  moreover have "\<bar>of_int n :: rat\<bar> < 2 ^ 1024" unfolding a by simp
  ultimately show ?thesis by (rule to_double_exact)
next
  case False
  with assms have "\<bar>n\<bar> < 2 ^ 53" by simp
  then have a: "\<bar>of_int n :: rat\<bar> < 2 ^ 53"
    by (metis of_int_abs of_int_less_iff of_int_numeral of_int_power)
  from ulp_below [OF a] obtain m where m: "ulp \<bar>of_int n :: rat\<bar> * 2 ^ m = 1" ..
  then have "inverse (ulp \<bar>of_int n :: rat\<bar>) = 2 ^ m" by (rule inverse_unique)
  then have "(of_int n :: rat) / ulp \<bar>of_int n\<bar> = of_int (n * 2 ^ m)"
    by (simp add: divide_inverse)
  moreover from m have "ulp \<bar>of_int n :: rat\<bar> \<noteq> 0" by auto
  moreover from a have "\<bar>of_int n :: rat\<bar> < 2 ^ 1024" by simp
  ultimately show ?thesis by (rule to_double_exact)
qed

lemma plus_one_int:
  assumes "\<bar>n\<bar> < 2 ^ 53"
  shows "plus_one (Num (of_int n)) = Num (of_int (n + 1))"
proof -
  from assms have "\<bar>n + 1\<bar> \<le> 2 ^ 53" by simp
  from to_double_int [OF this] show ?thesis by (simp add: plus_one.simps)
qed


lemma plus_one_small:
  "plus_one (Num 0) = Num 1" "plus_one (Num 1) = Num 2" "plus_one (Num 3) = Num 4"
  "plus_one (Num 5) = Num 6"
  using plus_one_int [of 0] plus_one_int [of 1] plus_one_int [of 3] plus_one_int [of 5]
  by simp_all

section \<open>Properties of the record store\<close>

lemma lit_eq_iff [simp]: "lit a = lit b \<longleftrightarrow> a = b"
  by (simp add: lit_def inj_map_eq_map inj_on_def)

lemma lit_Nil_iff [simp]: "lit a = [] \<longleftrightarrow> a = []"
  by (simp add: lit_def)

lemma lookup_put: "lookup (put k v ps) k' = (if k' = k then v else lookup ps k')"
  by (induction ps) auto

lemma get_set_record:
  "get_prop (set_prop (JObj ps) k v) k' = (if k' = k then v else get_prop (JObj ps) k')"
  by (simp add: lookup_put)

lemma is_record_set_prop [simp]: "is_record (set_prop r k v) = is_record r"
  by (cases r) auto

lemma get_set_is_record:
  "is_record r \<Longrightarrow> get_prop (set_prop r k v) k' = (if k' = k then v else get_prop r k')"
  by (cases r) (auto simp: lookup_put)

lemma truthy_record: "is_record r \<Longrightarrow> truthy r"
  by (cases r) auto

lemma isoNow_simps [simp]:
  "fst (isoNow e p) = now_at e (clock_reads p)"
  "snd (isoNow e p) = p\<lparr>clock_reads := Suc (clock_reads p)\<rparr>"
  by (simp_all add: isoNow_def)



lemma updateStatusOnError_record:
  assumes "is_record ex"
  shows "updateStatusOnError e p ex rid up code msg =
    (Inr (let r1 = set_prop ex (lit ''lastUpdateStatus'')
                     (error_status code msg (now_at e (clock_reads p)) (attempt_in ex));
              m = get_prop ex (lit ''meta'')
          in if truthy m \<and> is_object m
             then set_prop r1 (lit ''meta'')
                    (set_prop m (lit ''schemaVersion'')
                       (js_or (get_prop m (lit ''schemaVersion'')) (JStr (lit ''1.0.0''))))
             else r1),
     p\<lparr>clock_reads := Suc (clock_reads p)\<rparr>)"
  using assms
  by (simp add: updateStatusOnError_def isoNow_def truthy_record Let_def get_set_is_record)

lemma lookup_to_json:
  "lookup ps k = v \<Longrightarrow> v \<noteq> JUndef \<Longrightarrow>
   lookup (map (\<lambda>p. (fst p, to_json (snd p))) (filter (\<lambda>p. snd p \<noteq> JUndef) ps)) k = to_json v"
  by (induction ps) auto

lemma to_json_record:
  "is_record r \<Longrightarrow> get_prop r k = v \<Longrightarrow> v \<noteq> JUndef \<Longrightarrow>
   is_record (to_json r) \<and> get_prop (to_json r) k = to_json v"
  by (cases r) (auto simp: lookup_to_json)






lemma writeFileAtomic_cases:
  "r \<noteq> JUndef \<Longrightarrow>
   write_succeeds e (write_calls p) \<and>
   writeFileAtomic e p r =
     (None, p\<lparr>write_calls := Suc (write_calls p), written := Some (to_json r)\<rparr>)
   \<or> \<not> write_succeeds e (write_calls p) \<and>
     writeFileAtomic e p r = (Some IOError, p\<lparr>write_calls := Suc (write_calls p)\<rparr>)"
  by (simp add: writeFileAtomic_def Let_def)















lemma store_parsed_cases:
  "\<exists>r now. is_record r
     \<and> get_prop r (lit ''lastUpdateStatus'') =
         to_json (parsed_status now (plus_one (prevAttemptOf (output_file e))))
     \<and> get_prop (get_prop r (lit ''meta'')) (lit ''contentHash'') =
         JStr (sha256 e (hashInput ft pe))
     \<and> (write_succeeds e (write_calls p) \<and>
          (\<exists>p'. store_parsed e p rid ft pe fv pv = Done p' \<and> written p' = Some r
             \<and> world p' = world p)
        \<or> \<not> write_succeeds e (write_calls p) \<and>
          (\<exists>p'. store_parsed e p rid ft pe fv pv = Throw IOError p' \<and> written p' = written p
             \<and> write_calls p' = Suc (write_calls p)))"
proof -
  let ?now = "now_at e (clock_reads p)"
  let ?p2 = "p\<lparr>clock_reads := Suc (Suc (clock_reads p))\<rparr>"
  let ?h = "sha256 e (hashInput ft pe)"
  let ?st = "parsed_status ?now (plus_one (prevAttemptOf (output_file e)))"
  let ?meta = "JObj [(lit ''schemaVersion'', JStr (lit ''1.0.0'')), (lit ''contentHash'', JStr ?h)]"
  let ?out = "JObj [(lit ''regionId'', JStr rid),
              (lit ''lastUpdated'', JStr (now_at e (Suc (clock_reads p)))),
              (lit ''fact'', fv),
              (lit ''preset'', pv),
              (lit ''lastUpdateStatus'', ?st),
              (lit ''meta'', ?meta)]"
  have eq: "store_parsed e p rid ft pe fv pv =
      (case writeFileAtomic e ?p2 ?out of (Some y, p3) \<Rightarrow> Throw y p3 | (None, p3) \<Rightarrow> Done p3)"
    by (simp add: store_parsed_def Let_def isoNow_def buildOutput_def loadExisting_def)
  have rec: "is_record ?out" by simp
  have l1: "get_prop ?out (lit ''lastUpdateStatus'') = ?st" by simp
  have l2: "get_prop ?out (lit ''meta'') = ?meta" by simp
  have n1: "?st \<noteq> JUndef" by (simp add: parsed_status_def)
  have n2: "?meta \<noteq> JUndef" by simp
  have ne: "?out \<noteq> JUndef" by simp
  define r where "r = to_json ?out"
  from to_json_record [OF rec l1 n1] to_json_record [OF rec l2 n2]
  have tj: "is_record r"
    "get_prop r (lit ''lastUpdateStatus'') = to_json ?st"
    "get_prop (get_prop r (lit ''meta'')) (lit ''contentHash'') = JStr ?h"
    unfolding r_def by simp_all
  have fin: "write_succeeds e (write_calls p) \<and>
         (\<exists>p'. store_parsed e p rid ft pe fv pv = Done p' \<and> written p' = Some r
            \<and> world p' = world p)
       \<or> \<not> write_succeeds e (write_calls p) \<and>
         (\<exists>p'. store_parsed e p rid ft pe fv pv = Throw IOError p' \<and> written p' = written p
            \<and> write_calls p' = Suc (write_calls p))"
    using writeFileAtomic_cases [OF ne, of e ?p2]
  proof
    assume w: "write_succeeds e (write_calls ?p2) \<and> writeFileAtomic e ?p2 ?out =
      (None, ?p2\<lparr>write_calls := Suc (write_calls ?p2), written := Some (to_json ?out)\<rparr>)"
    with eq have d: "store_parsed e p rid ft pe fv pv =
        Done (?p2\<lparr>write_calls := Suc (write_calls ?p2), written := Some r\<rparr>)"
      unfolding r_def by simp
    have wr: "written (?p2\<lparr>write_calls := Suc (write_calls ?p2), written := Some r\<rparr>) = Some r"
      "world (?p2\<lparr>write_calls := Suc (write_calls ?p2), written := Some r\<rparr>) = world p"
      by simp_all
    from w have "write_succeeds e (write_calls p)" by simp
    with d wr show ?thesis by blast
  next
    assume w: "\<not> write_succeeds e (write_calls ?p2) \<and> writeFileAtomic e ?p2 ?out =
      (Some IOError, ?p2\<lparr>write_calls := Suc (write_calls ?p2)\<rparr>)"
    with eq show ?thesis by simp
  qed
  from tj fin show ?thesis by blast
qed





text \<open>
  A run that does not end on the success path, from an admissible previous content: it
  persists a record with the error status, unless its first write fails or the evaluated
  text is not contained.
\<close>

lemma snd_finish [simp]: "snd (finish e r) = snd r"
  by (simp add: finish_def split: option.splits)













text \<open>
  What the failure paths write, whatever the previous content: when the value written is a
  record, its status is the error status counted from the attempt the run starts from.
\<close>

lemma is_record_to_json [simp]: "is_record (to_json r) = is_record r"
proof (cases r)
  case (JNum x)
  then show ?thesis by (cases x) simp_all
qed simp_all










text \<open>
  Three runs in which the evaluated text decides the exit code. On the success path the
  process runs to completion and ends with the \<^verbatim>\<open>process.exitCode\<close> that the text has set.
  A text that calls \<^verbatim>\<open>process.exit\<close> ends the process there. When the text throws an
  object whose message accessor throws \<open>null\<close>, that \<open>null\<close> leaves \<open>main\<close>, the handler's
  first read of its message throws, and the process ends with code 1, having written nothing.
\<close>

lemma node_extract:
  "extractDisconObject (lit ''DisconSchedule.fact = [process.exitCode = 3]'') (lit ''fact'')
     = Extracted (lit ''[process.exitCode = 3]'') 22 44"
  "extractDisconObject (lit ''DisconSchedule.fact = [process.exitCode = 3]'') (lit ''preset'')
     = ExtError (lit ''Marker `DisconSchedule.preset =` not found'')"
  "extractDisconObject (lit ''DisconSchedule.fact = [process.exit(5)]'') (lit ''fact'')
     = Extracted (lit ''[process.exit(5)]'') 22 39"
  "extractDisconObject
     (lit ''DisconSchedule.fact = [(function(){throw {get message(){throw null}}})()]'')
     (lit ''fact'')
     = Extracted (lit ''[(function(){throw {get message(){throw null}}})()]'') 22 73"
  by (simp_all add: extractDisconObject_def lit_def marker_of_def indexOf_def startsWith_def
      is_space_def LBRACE_def RBRACE_def LBRACK_def RBRACK_def count_step_def slice_def Let_def)

lemma exit_code_set_by_text:
  "fst (run_script
         (node_env\<lparr>input_file := Contents (lit ''DisconSchedule.fact = [process.exitCode = 3]'')\<rparr>)
         demo_args (4242, 0)) = Some 3"
proof -
  let ?e = "node_env\<lparr>input_file := Contents (lit ''DisconSchedule.fact = [process.exitCode = 3]'')\<rparr>"
  have t: "tryParseObject ?e (4242, 0) (lit ''[process.exitCode = 3]'') =
      (Returns (Parsed (JArr [JNum (Num 3)] []) (lit ''eval'')), (4242, 3))"
    by (simp add: tryParseObject_def node_env_def node_eval_def lit_def)
  have m: "main ?e demo_args (start (4242, 0)) =
      store_parsed ?e (start (4242, 0)\<lparr>world := (4242, 3)\<rparr>) (lit ''kyiv'')
        (lit ''[process.exitCode = 3]'')
        (ExtError (lit ''Marker `DisconSchedule.preset =` not found''))
        (JArr [JNum (Num 3)] []) JNull"
    by (simp add: main_def demo_args_def parse_and_store_def node_extract parse_preset_def t
        start_def)
  have w: "write_succeeds ?e 0" by (simp add: node_env_def)
  from store_parsed_cases [of ?e "lit ''[process.exitCode = 3]''"
      "ExtError (lit ''Marker `DisconSchedule.preset =` not found'')"
      "start (4242, 0)\<lparr>world := (4242, 3)\<rparr>" "lit ''kyiv''" "JArr [JNum (Num 3)] []" JNull] w
  obtain p' where "main ?e demo_args (start (4242, 0)) = Done p'" "world p' = (4242, 3)"
    unfolding m by (auto simp: start_def)
  then show ?thesis by (simp add: run_script_def node_env_def)
qed

lemma exit_in_text:
  "run_script
     (node_env\<lparr>input_file := Contents (lit ''DisconSchedule.fact = [process.exit(5)]'')\<rparr>)
     demo_args (4242, 0)
   = (Some 5, \<lparr>clock_reads = 0, write_calls = 0, written = None, world = (4242, 0)\<rparr>)"
proof -
  let ?e = "node_env\<lparr>input_file := Contents (lit ''DisconSchedule.fact = [process.exit(5)]'')\<rparr>"
  have t: "tryParseObject ?e (4242, 0) (lit ''[process.exit(5)]'') = (Exits 5, (4242, 0))"
    by (simp add: tryParseObject_def node_env_def node_eval_def lit_def)
  have m: "main ?e demo_args (start (4242, 0)) = Exit 5 (start (4242, 0))"
    by (simp add: main_def demo_args_def parse_and_store_def node_extract t start_def)
  show ?thesis
    unfolding run_script_def m flow.case by (simp add: finish_def node_env_def start_def)
qed

lemma exit_code_one_in_handler:
  "run_script
     (node_env\<lparr>input_file := Contents
        (lit ''DisconSchedule.fact = [(function(){throw {get message(){throw null}}})()]'')\<rparr>)
     demo_args (4242, 0)
   = (Some 1, \<lparr>clock_reads = 0, write_calls = 0, written = None, world = (4242, 0)\<rparr>)"
proof -
  let ?e = "node_env\<lparr>input_file := Contents
        (lit ''DisconSchedule.fact = [(function(){throw {get message(){throw null}}})()]'')\<rparr>"
  have t: "tryParseObject ?e (4242, 0)
      (lit ''[(function(){throw {get message(){throw null}}})()]'') =
      (Throws (Thrown ThrownNull), (4242, 0))"
    by (simp add: tryParseObject_def read_message_def node_env_def node_eval_def lit_def)
  have m: "main ?e demo_args (start (4242, 0)) = Throw (Thrown ThrownNull) (start (4242, 0))"
    by (simp add: main_def demo_args_def parse_and_store_def node_extract t start_def)
  have ch: "crash_handler ?e demo_args (Thrown ThrownNull) (start (4242, 0)) =
      (Some 1, \<lparr>clock_reads = 0, write_calls = 0, written = None, world = (4242, 0)\<rparr>)"
    by (simp add: crash_handler_def read_message_def node_env_def start_def)
  show ?thesis
    unfolding run_script_def m flow.case ch by (simp add: finish_def node_env_def)
qed

section \<open>The claims about parse_fact.js\<close>

text \<open>
  Claim C1, as amended. For a previous record that is a JSON object, \<open>updateStatusOnError\<close>
  returns a record whose \<open>fact\<close>, \<open>preset\<close> and \<open>lastUpdated\<close>, and every other field except
  \<open>lastUpdateStatus\<close> and \<open>meta\<close>, are those of the previous record; \<open>lastUpdateStatus\<close> is
  replaced by a new object with status \<open>error\<close>, \<open>ok = false\<close>, the given code and message,
  the time of the call and an attempt number; and \<open>meta\<close>, when it is an object without a
  truthy \<open>schemaVersion\<close>, receives \<open>schemaVersion = 1.0.0\<close> and is otherwise unchanged.
\<close>

theorem updateStatusOnError_frame:
  "\<exists>r. updateStatusOnError e p (JObj ps) regionId upstream code message = (Inr r, snd (isoNow e p))
     \<and> get_prop r (lit ''fact'') = get_prop (JObj ps) (lit ''fact'')
     \<and> get_prop r (lit ''preset'') = get_prop (JObj ps) (lit ''preset'')
     \<and> get_prop r (lit ''lastUpdated'') = get_prop (JObj ps) (lit ''lastUpdated'')
     \<and> (\<forall>k. k \<noteq> lit ''lastUpdateStatus'' \<and> k \<noteq> lit ''meta'' \<longrightarrow>
            get_prop r k = get_prop (JObj ps) k)
     \<and> (\<exists>n. get_prop r (lit ''lastUpdateStatus'') =
         JObj [(lit ''status'', JStr (lit ''error'')), (lit ''ok'', JBool False),
               (lit ''code'', code), (lit ''message'', message),
               (lit ''at'', JStr (fst (isoNow e p))),
               (lit ''attempt'', JNum n)])
     \<and> get_prop r (lit ''meta'') =
         (let m = get_prop (JObj ps) (lit ''meta'')
          in if truthy m \<and> is_object m
             then set_prop m (lit ''schemaVersion'')
                    (js_or (get_prop m (lit ''schemaVersion'')) (JStr (lit ''1.0.0'')))
             else m)"
  by (simp add: updateStatusOnError_record Let_def lookup_put error_status_def)

theorem updateStatusOnError_frame_witness:
  "\<exists>r. fst (updateStatusOnError demo_env (start ())
              (JObj [(lit ''fact'', JNum (Num 7)),
                     (lit ''lastUpdateStatus'', JObj [(lit ''attempt'', JNum (Num 3))])])
              (JStr (lit ''kyiv'')) JNull (JNum (Num 404)) (JStr (lit ''gone''))) = Inr r
       \<and> get_prop r (lit ''fact'') = JNum (Num 7)
       \<and> get_prop (get_prop r (lit ''lastUpdateStatus'')) (lit ''status'') = JStr (lit ''error'')
       \<and> get_prop (get_prop r (lit ''lastUpdateStatus'')) (lit ''ok'') = JBool False
       \<and> get_prop (get_prop r (lit ''lastUpdateStatus'')) (lit ''code'') = JNum (Num 404)
       \<and> get_prop (get_prop r (lit ''lastUpdateStatus'')) (lit ''message'') = JStr (lit ''gone'')"
proof -
  let ?ps = "[(lit ''fact'', JNum (Num 7)),
      (lit ''lastUpdateStatus'', JObj [(lit ''attempt'', JNum (Num 3))])]"
  from updateStatusOnError_frame [of demo_env "start ()" ?ps
      "JStr (lit ''kyiv'')" JNull "JNum (Num 404)" "JStr (lit ''gone'')"]
  obtain r n where r: "updateStatusOnError demo_env (start ()) (JObj ?ps)
        (JStr (lit ''kyiv'')) JNull (JNum (Num 404)) (JStr (lit ''gone'')) =
          (Inr r, snd (isoNow demo_env (start ())))"
    "get_prop r (lit ''fact'') = get_prop (JObj ?ps) (lit ''fact'')"
    "get_prop r (lit ''lastUpdateStatus'') =
         JObj [(lit ''status'', JStr (lit ''error'')), (lit ''ok'', JBool False),
               (lit ''code'', JNum (Num 404)), (lit ''message'', JStr (lit ''gone'')),
               (lit ''at'', JStr (fst (isoNow demo_env (start ())))),
               (lit ''attempt'', JNum n)]"
    by blast
  from r show ?thesis
    by (intro exI [of _ r]) simp
qed

text \<open>
  Claim C1 as stated says that only \<open>lastUpdateStatus\<close> is replaced. For the previous record
  \<^verbatim>\<open>{"meta": {}}\<close> the returned record has \<^verbatim>\<open>meta = {"schemaVersion": "1.0.0"}\<close>.
\<close>

theorem updateStatusOnError_meta_counterexample:
  "fst (updateStatusOnError demo_env (start ()) (JObj [(lit ''meta'', JObj [])])
          (JStr (lit ''kyiv'')) JNull (JNum (Num 404)) (JStr (lit ''gone''))) =
     Inr (JObj [(lit ''meta'', JObj [(lit ''schemaVersion'', JStr (lit ''1.0.0''))]),
                (lit ''lastUpdateStatus'',
                 JObj [(lit ''status'', JStr (lit ''error'')), (lit ''ok'', JBool False),
                       (lit ''code'', JNum (Num 404)), (lit ''message'', JStr (lit ''gone'')),
                       (lit ''at'', JStr (lit ''2024-01-05T06:00:00.000Z'')),
                       (lit ''attempt'', JNum (Num 1))])])
   \<and> get_prop (JObj [(lit ''meta'', JObj [])]) (lit ''meta'') = JObj []"
  by (simp add: updateStatusOnError_record Let_def js_or_def error_status_def attempt_in_def
      plus_one_small demo_env_def start_def)




text \<open>
  Claim C4. When strict decoding accepts the text, \<open>tryParseObject\<close> returns its value tagged
  \<open>json\<close>, leaves the ambient state alone and does not depend on the evaluator: the fallback
  is not attempted. When strict decoding fails and the evaluation returns a value, that
  value is returned tagged \<open>eval\<close>. When both fail and the message of what the evaluation
  threw can be read, an error with that message is returned. When reading the message
  throws, \<open>tryParseObject\<close> returns no error: it throws. So it does on the text
  \<^verbatim>\<open>[(function(){throw null})()]\<close>, on which both modes fail. An evaluation that ends the
  process or does not return leaves \<open>tryParseObject\<close> without a result.
\<close>

theorem tryParseObject_strict_first:
  "(\<forall>v. JSON_parse e text = Some v \<longrightarrow>
        tryParseObject e w text = (Returns (Parsed v (lit ''json'')), w)
        \<and> (\<forall>F M. tryParseObject (e\<lparr>Function_eval := F, message_of := M\<rparr>) w text =
                  tryParseObject e w text))
   \<and> (JSON_parse e text = None \<longrightarrow>
        (\<forall>val w'. Function_eval e w (lit ''\"use strict\"; return ('' @ text @ lit '');'') =
              (Returns val, w')
           \<longrightarrow> tryParseObject e w text = (Returns (Parsed val (lit ''eval'')), w'))
        \<and> (\<forall>t w' m w''.
              Function_eval e w (lit ''\"use strict\"; return ('' @ text @ lit '');'') =
                (Throws t, w')
              \<and> message_of e w' t = (Returns m, w'')
           \<longrightarrow> tryParseObject e w text =
                 (Returns (ParseFailed (lit ''Failed to parse object: '' @ m)), w''))
        \<and> (\<forall>t w' t' w''.
              Function_eval e w (lit ''\"use strict\"; return ('' @ text @ lit '');'') =
                (Throws t, w')
              \<and> message_of e w' t = (Throws t', w'')
           \<longrightarrow> tryParseObject e w text = (Throws (Thrown t'), w''))
        \<and> ((\<exists>msg w'. tryParseObject e w text = (Returns (ParseFailed msg), w')) \<longleftrightarrow>
             (\<exists>t w' m w''.
                Function_eval e w (lit ''\"use strict\"; return ('' @ text @ lit '');'') =
                  (Throws t, w')
                \<and> message_of e w' t = (Returns m, w''))))
   \<and> JSON_parse node_env (lit ''[(function(){throw null})()]'') = None
   \<and> tryParseObject node_env (4242, 0) (lit ''[(function(){throw null})()]'') =
       (Throws (Thrown (ErrorObject (lit ''Cannot read properties of null (reading message)''))),
        (4242, 0))"
proof -
  let ?body = "lit ''\"use strict\"; return ('' @ text @ lit '');''"
  have general: "JSON_parse e text = None \<Longrightarrow>
      ((\<exists>msg w'. tryParseObject e w text = (Returns (ParseFailed msg), w')) \<longleftrightarrow>
       (\<exists>t w' m w''. Function_eval e w ?body = (Throws t, w')
          \<and> message_of e w' t = (Returns m, w'')))"
    by (auto simp: tryParseObject_def read_message_def
        split: option.splits prod.splits outcome.splits)
  have ex: "JSON_parse node_env (lit ''[(function(){throw null})()]'') = None
     \<and> tryParseObject node_env (4242, 0) (lit ''[(function(){throw null})()]'') =
       (Throws (Thrown (ErrorObject (lit ''Cannot read properties of null (reading message)''))),
        (4242, 0))"
    by (simp add: tryParseObject_def read_message_def node_env_def node_eval_def lit_def)
  show ?thesis
    using general ex
    by (auto simp: tryParseObject_def read_message_def
        split: option.splits prod.splits outcome.splits)
qed

theorem tryParseObject_strict_first_witness:
  "JSON_parse demo_env (lit ''{}'') = Some (JObj [])
   \<and> tryParseObject demo_env () (lit ''{}'') = (Returns (Parsed (JObj []) (lit ''json'')), ())
   \<and> JSON_parse demo_env (lit ''{a}'') = None
   \<and> Function_eval demo_env () (lit ''\"use strict\"; return ('' @ lit ''{a}'' @ lit '');'') =
       (Throws (lit ''Unexpected token''), ())
   \<and> message_of demo_env () (lit ''Unexpected token'') = (Returns (lit ''Unexpected token''), ())
   \<and> tryParseObject demo_env () (lit ''{a}'') =
       (Returns (ParseFailed (lit ''Failed to parse object: '' @ lit ''Unexpected token'')), ())"
proof -
  have h: "JSON_parse demo_env (lit ''{}'') = Some (JObj [])"
    by (simp add: demo_env_def)
  have n: "JSON_parse demo_env (lit ''{a}'') = None"
    by (simp add: demo_env_def lit_def)
  have f: "Function_eval demo_env () (lit ''\"use strict\"; return ('' @ lit ''{a}'' @ lit '');'') =
       (Throws (lit ''Unexpected token''), ())"
    by (simp add: demo_env_def)
  have m: "message_of demo_env () (lit ''Unexpected token'') = (Returns (lit ''Unexpected token''), ())"
    by (simp add: demo_env_def)
  from tryParseObject_strict_first [of demo_env "lit ''{}''" "()"] h
  have "tryParseObject demo_env () (lit ''{}'') = (Returns (Parsed (JObj []) (lit ''json'')), ())"
    by blast
  moreover from tryParseObject_strict_first [of demo_env "lit ''{a}''" "()"] n f m
  have "tryParseObject demo_env () (lit ''{a}'') =
       (Returns (ParseFailed (lit ''Failed to parse object: '' @ lit ''Unexpected token'')), ())"
    by blast
  ultimately show ?thesis using h n f m by simp
qed







text \<open>
  Claim C9 asks for an evaluation that neither reads nor changes ambient state. The source
  hands the text to \<^verbatim>\<open>Function\<close> in the global scope: on a text that strict decoding
  rejects, the result and the ambient state after the call are those of the evaluator run
  on the full ambient state. On the texts \<^verbatim>\<open>[process.pid]\<close> and
  \<^verbatim>\<open>[process.exitCode = 3]\<close> the result depends on the process and the process is changed.
\<close>

theorem tryParseObject_ambient:
  "(\<forall>(e :: ('w, 't) env) w text. JSON_parse e text = None \<longrightarrow>
      tryParseObject e w text =
        (case Function_eval e w (lit ''\"use strict\"; return ('' @ text @ lit '');'') of
           (Returns val, w') \<Rightarrow> (Returns (Parsed val (lit ''eval'')), w')
         | (Throws t, w') \<Rightarrow>
             (case read_message e w' (Thrown t) of
                (Returns msg, w'') \<Rightarrow>
                  (Returns (ParseFailed (lit ''Failed to parse object: '' @ msg)), w'')
              | (Throws x, w'') \<Rightarrow> (Throws x, w'')
              | (Exits n, w'') \<Rightarrow> (Exits n, w'')
              | (Hangs, w'') \<Rightarrow> (Hangs, w''))
         | (Exits n, w') \<Rightarrow> (Exits n, w')
         | (Hangs, w') \<Rightarrow> (Hangs, w')))
   \<and> fst (tryParseObject node_env (1, 0) (lit ''[process.pid]'')) =
        Returns (Parsed (JArr [JNum (Num 1)] []) (lit ''eval''))
   \<and> fst (tryParseObject node_env (2, 0) (lit ''[process.pid]'')) =
        Returns (Parsed (JArr [JNum (Num 2)] []) (lit ''eval''))
   \<and> snd (tryParseObject node_env (1, 0) (lit ''[process.exitCode = 3]'')) = (1, 3)"
  by (simp add: tryParseObject_def node_env_def node_eval_def lit_def)

theorem tryParseObject_ambient_witness:
  "JSON_parse node_env (lit ''[process.pid]'') = None
   \<and> tryParseObject node_env (7, 0) (lit ''[process.pid]'') =
       (Returns (Parsed (JArr [JNum (Num 7)] []) (lit ''eval'')), (7, 0))"
proof -
  have h: "JSON_parse node_env (lit ''[process.pid]'') = None"
    by (simp add: node_env_def)
  from tryParseObject_ambient [where 'w = "nat \<times> nat" and 't = thrown] h
  have "tryParseObject node_env (7, 0) (lit ''[process.pid]'') =
        (case Function_eval node_env (7, 0)
                (lit ''\"use strict\"; return ('' @ lit ''[process.pid]'' @ lit '');'') of
           (Returns val, w') \<Rightarrow> (Returns (Parsed val (lit ''eval'')), w')
         | (Throws t, w') \<Rightarrow>
             (case read_message node_env w' (Thrown t) of
                (Returns msg, w'') \<Rightarrow>
                  (Returns (ParseFailed (lit ''Failed to parse object: '' @ msg)), w'')
              | (Throws x, w'') \<Rightarrow> (Throws x, w'')
              | (Exits n, w'') \<Rightarrow> (Exits n, w'')
              | (Hangs, w'') \<Rightarrow> (Hangs, w''))
         | (Exits n, w') \<Rightarrow> (Exits n, w')
         | (Hangs, w') \<Rightarrow> (Hangs, w'))"
    by blast
  then have "tryParseObject node_env (7, 0) (lit ''[process.pid]'') =
       (Returns (Parsed (JArr [JNum (Num 7)] []) (lit ''eval'')), (7, 0))"
    by (simp add: node_env_def node_eval_def lit_def)
  with h show ?thesis by simp
qed

section \<open>Properties of the task scheduler\<close>

lemma length_insert_by [simp]: "length (insert_by le x ys) = Suc (length ys)"
  by (induction ys) auto

lemma length_sort_by [simp]: "length (sort_by le xs) = length xs"
  by (induction xs) (auto simp: sort_by_def)

lemma length_group_tasks [simp]: "length (group_tasks f rid g) = 4"
  by (simp add: group_tasks_def Let_def)

lemma length_concat_group_tasks:
  "length (concat (map (group_tasks f rid) ks)) = 4 * length ks"
  by (induction ks) auto

lemma demo_gpv: "is_gpv (lit ''GPV1.1'')"
  by (simp add: is_gpv_def lit_def is_digit_def)

lemma prepare_ineligible:
  assumes "f_json f = Some json" and "\<not> eligible json"
  shows "prepare_tasks le onlyRegion f = ([], [])" and "prepare_renders le onlyRegion f = ([], [])"
  using assms by (simp_all add: prepare_tasks_def prepare_renders_def)

section \<open>The claims about batch_render.mjs\<close>

text \<open>
  Claim C8, as amended. For a data file whose content passes the eligibility test (an object
  with truthy \<open>fact\<close> and \<open>preset\<close>) and the region filter, and whose \<^verbatim>\<open>preset.data\<close> has at
  least one key matching the group pattern, the scheduler creates exactly
  \<open>4 \<times> |groups| + 2\<close> tasks, the groups being the matching keys of \<^verbatim>\<open>preset.data\<close>: the four
  templates full, emergency, week and summary for each group, then the two views of all
  groups, for today and for tomorrow.
\<close>

theorem batch_task_fanout:
  assumes "f_json f = Some json" and "eligible json"
    and "\<not> filtered_out onlyRegion (normalizeRegionId json (f_stem f)) (f_stem f)"
    and "gpvKeys_of le json \<noteq> []"
  shows "prepare_tasks le onlyRegion f =
           (concat (map (group_tasks f (normalizeRegionId json (f_stem f))) (gpvKeys_of le json))
              @ region_tasks f (normalizeRegionId json (f_stem f)), [])
         \<and> length (fst (prepare_tasks le onlyRegion f)) = 4 * length (gpvKeys_of le json) + 2
         \<and> length (gpvKeys_of le json) =
             length (filter is_gpv
               (named_keys (js_or (get_prop (get_prop json (lit ''preset'')) (lit ''data''))
                  (JObj []))))
         \<and> map t_template (group_tasks f (normalizeRegionId json (f_stem f)) g) =
             [Full, Emergency, Week, Summary]
         \<and> map t_day (region_tasks f (normalizeRegionId json (f_stem f))) =
             [None, Some (lit ''tomorrow'')]"
  using assms
  by (simp add: prepare_tasks_def Let_def length_concat_group_tasks region_tasks_def
      gpvKeys_of_def group_tasks_def)

theorem batch_task_fanout_witness:
  "eligible (JObj [(lit ''fact'', JObj []),
                   (lit ''preset'', JObj [(lit ''data'', JObj [(lit ''GPV1.1'', JArr [] [])])])])
   \<and> length (fst (prepare_tasks (\<lambda>a b. True) JNull
        (demo_file (JObj [(lit ''fact'', JObj []),
           (lit ''preset'', JObj [(lit ''data'', JObj [(lit ''GPV1.1'', JArr [] [])])])])))) = 6"
proof -
  let ?json = "JObj [(lit ''fact'', JObj []),
                   (lit ''preset'', JObj [(lit ''data'', JObj [(lit ''GPV1.1'', JArr [] [])])])]"
  have h1: "f_json (demo_file ?json) = Some ?json" by (simp add: demo_file_def)
  have h2: "eligible ?json" by (simp add: eligible_def)
  have h3: "\<not> filtered_out JNull (normalizeRegionId ?json (f_stem (demo_file ?json)))
      (f_stem (demo_file ?json))"
    by (simp add: filtered_out_def)
  have k: "gpvKeys_of (\<lambda>a b. True) ?json = [lit ''GPV1.1'']"
    by (simp add: gpvKeys_of_def js_or_def sort_by_def demo_gpv)
  then have h4: "gpvKeys_of (\<lambda>a b. True) ?json \<noteq> []" by simp
  from batch_task_fanout [OF h1 h2 h3 h4, of "[]"]
  have "length (fst (prepare_tasks (\<lambda>a b. True) JNull (demo_file ?json))) =
      4 * length (gpvKeys_of (\<lambda>a b. True) ?json) + 2"
    by blast
  with h2 k show ?thesis by simp
qed

text \<open>
  Claim C8 as stated takes the groups from the keys of \<open>preset\<close>. A record with truthy \<open>fact\<close>
  whose \<open>preset\<close> has the key \<open>GPV1.1\<close> itself, and no \<open>data\<close>, gets no task and a warning.
\<close>

theorem batch_preset_keys_counterexample:
  "eligible (JObj [(lit ''fact'', JObj []), (lit ''preset'', JObj [(lit ''GPV1.1'', JArr [] [])])])
   \<and> filter is_gpv (named_keys (get_prop
         (JObj [(lit ''fact'', JObj []), (lit ''preset'', JObj [(lit ''GPV1.1'', JArr [] [])])])
         (lit ''preset''))) = [lit ''GPV1.1'']
   \<and> prepare_tasks (\<lambda>a b. True) JNull
        (demo_file (JObj [(lit ''fact'', JObj []),
                          (lit ''preset'', JObj [(lit ''GPV1.1'', JArr [] [])])]))
       = ([], [NoGroups (lit ''data/kyiv.json'')])"
  by (simp add: eligible_def demo_gpv prepare_tasks_def demo_file_def filtered_out_def
      gpvKeys_of_def js_or_def sort_by_def Let_def)

text \<open>
  Claim C10. A data file whose content is not an object, or lacks a truthy \<open>preset\<close> or a
  truthy \<open>fact\<close>, gets no task and prints no warning, in both variants; with the file in the
  list or without it, the counts of tasks, successes and failures and the exit code are the
  same, and alone it gives exit code 0.
\<close>

theorem batch_skips_ineligible:
  assumes "f_json f = Some json"
    and "\<not> truthy json \<or> \<not> is_object json \<or> \<not> truthy (get_prop json (lit ''preset''))
         \<or> \<not> truthy (get_prop json (lit ''fact''))"
  shows "prepare_tasks le onlyRegion f = ([], [])
         \<and> prepare_renders le onlyRegion f = ([], [])
         \<and> exit_code (batch_render tp le onlyRegion renders (fs @ f # fs')) =
             exit_code (batch_render tp le onlyRegion renders (fs @ fs'))
         \<and> total (batch_render tp le onlyRegion renders (fs @ f # fs')) =
             total (batch_render tp le onlyRegion renders (fs @ fs'))
         \<and> ok (batch_render tp le onlyRegion renders (fs @ f # fs')) =
             ok (batch_render tp le onlyRegion renders (fs @ fs'))
         \<and> failed (batch_render tp le onlyRegion renders (fs @ f # fs')) =
             failed (batch_render tp le onlyRegion renders (fs @ fs'))
         \<and> exit_code (batch_render_subprocess tp le onlyRegion renders (fs @ f # fs')) =
             exit_code (batch_render_subprocess tp le onlyRegion renders (fs @ fs'))
         \<and> total (batch_render_subprocess tp le onlyRegion renders (fs @ f # fs')) =
             total (batch_render_subprocess tp le onlyRegion renders (fs @ fs'))
         \<and> ok (batch_render_subprocess tp le onlyRegion renders (fs @ f # fs')) =
             ok (batch_render_subprocess tp le onlyRegion renders (fs @ fs'))
         \<and> failed (batch_render_subprocess tp le onlyRegion renders (fs @ f # fs')) =
             failed (batch_render_subprocess tp le onlyRegion renders (fs @ fs'))
         \<and> exit_code (batch_render True le onlyRegion renders [f]) = 0
         \<and> exit_code (batch_render_subprocess True le onlyRegion renders [f]) = 0"
proof -
  from assms(2) have ne: "\<not> eligible json" by (auto simp: eligible_def)
  note pi = prepare_ineligible [OF assms(1) ne]
  show ?thesis
    by (simp add: pi batch_render_def batch_render_subprocess_def Let_def)
qed

theorem batch_skips_ineligible_witness:
  "f_json (demo_file (JObj [(lit ''fact'', JObj [])])) = Some (JObj [(lit ''fact'', JObj [])])
   \<and> \<not> truthy (get_prop (JObj [(lit ''fact'', JObj [])]) (lit ''preset''))
   \<and> prepare_tasks (\<lambda>a b. True) JNull (demo_file (JObj [(lit ''fact'', JObj [])])) = ([], [])
   \<and> exit_code (batch_render True (\<lambda>a b. True) JNull (\<lambda>t. False)
        [demo_file (JObj [(lit ''fact'', JObj [])])]) = 0"
proof -
  have h1: "f_json (demo_file (JObj [(lit ''fact'', JObj [])])) = Some (JObj [(lit ''fact'', JObj [])])"
    by (simp add: demo_file_def)
  have h2: "\<not> truthy (get_prop (JObj [(lit ''fact'', JObj [])]) (lit ''preset''))"
    by simp
  then have h3: "\<not> truthy (JObj [(lit ''fact'', JObj [])])
      \<or> \<not> is_object (JObj [(lit ''fact'', JObj [])])
      \<or> \<not> truthy (get_prop (JObj [(lit ''fact'', JObj [])]) (lit ''preset''))
      \<or> \<not> truthy (get_prop (JObj [(lit ''fact'', JObj [])]) (lit ''fact''))"
    by simp
  from batch_skips_ineligible [OF h1 h3, of "\<lambda>a b. True" JNull True "\<lambda>t. False" "[]" "[]"] h1 h2
  show ?thesis by simp
qed

section \<open>The claim about the time normalizer\<close>

lemma dec_small: "n < 10 \<Longrightarrow> dec n = [48 + n]"
  by (subst dec.simps) simp

lemma dec_large: "10 \<le> n \<Longrightarrow> dec n = dec (n div 10) @ [48 + n mod 10]"
  by (subst dec.simps) simp

lemma calendar_2024_01_05:
  "Date_UTC (Some 2024) 0 5 8 0 0 = Some 1704441600000"
  "days_from_civil 2024 1 5 = 19727"
  "getUTC 1704434400000 = ((2024, 1, 5), (6, 0, 0))"
  "wall_clock eet 1704427200000 = ((2024, 1, 5), (6, 0, 0))"
  "wall_clock eet 1704434400000 = ((2024, 1, 5), (8, 0, 0))"
  by code_simp+

lemma numbers_2024_01_05:
  "Number_of (lit ''2024'') = Some 2024" "Number_of (lit ''01'') = Some 1"
  "Number_of (lit ''05'') = Some 5" "Number_of (lit ''08'') = Some 8"
  "Number_of (lit ''06'') = Some 6" "Number_of (lit ''02'') = Some 2"
  "Number_of (lit ''00'') = Some 0"
  by (simp_all add: Number_of_def lit_def is_space_def)

text \<open>
  Claim C5 asks that the local date and time re-derived from the output reproduce the
  input. For 5 January 2024, 08:00 in Kyiv, \<open>toKyivIso\<close> returns
  \<^verbatim>\<open>2024-01-05T06:00:00+02:00\<close>: the offset is right, but the date and time printed are the
  UTC fields of the instant, not the local ones. This timestamp denotes 04:00 UTC, where the
  wall clock of Kyiv shows 06:00; the timestamp of the input is
  \<^verbatim>\<open>2024-01-05T08:00:00+02:00\<close>.
\<close>

theorem toKyivIso_prints_utc_clock:
  "toKyivIso eet (lit ''2024-01-05'') (lit ''08:00'') = Inr (lit ''2024-01-05T06:00:00+02:00'')
   \<and> iso_instant (lit ''2024-01-05T06:00:00+02:00'') = Some 1704427200000
   \<and> wall_clock eet 1704427200000 = ((2024, 1, 5), (6, 0, 0))
   \<and> wall_clock eet 1704427200000 \<noteq> ((2024, 1, 5), (8, 0, 0))
   \<and> iso_instant (lit ''2024-01-05T08:00:00+02:00'') = Some 1704434400000
   \<and> wall_clock eet 1704434400000 = ((2024, 1, 5), (8, 0, 0))"
proof -
  note nm = numbers_2024_01_05
  have sp: "split_on 45 (lit ''2024-01-05'') = [lit ''2024'', lit ''01'', lit ''05'']"
    "split_on 58 (lit ''08:00'') = [lit ''08'', lit ''00'']"
    by (simp_all add: lit_def)
  have z: "zonedTimeToUtc eet (lit ''2024-01-05'') (lit ''08:00'') = Some 1704434400000"
    by (simp add: zonedTimeToUtc_def sp part_def nm or_default_def calendar_2024_01_05(1)
        tzOffsetMinutes_def eet_def)
  have p: "pad2 1 = lit ''01''" "pad2 5 = lit ''05''" "pad2 6 = lit ''06''" "pad2 0 = lit ''00''"
    "pad2 2 = lit ''02''"
    by (simp_all add: pad2_def String_of_def dec_small lit_def)
  have f: "formatOffset 120 = lit ''+02:00''"
    by (simp add: formatOffset_def p) (simp add: lit_def)
  have y: "String_of 2024 = lit ''2024''"
    by (simp add: String_of_def dec_large dec_small lit_def)
  have t: "toKyivIso eet (lit ''2024-01-05'') (lit ''08:00'') = Inr (lit ''2024-01-05T06:00:00+02:00'')"
    by (simp add: toKyivIso_def z calendar_2024_01_05(3) tzOffsetMinutes_def eet_def f p y)
       (simp add: lit_def)
  have pieces: "take 4 (lit ''2024-01-05'') = lit ''2024''"
    "take 2 (drop 5 (lit ''2024-01-05'')) = lit ''01''"
    "drop 8 (lit ''2024-01-05'') = lit ''05''"
    by (simp_all add: lit_def)
  have i1: "iso_instant (lit ''2024-01-05T06:00:00+02:00'') = Some 1704427200000"
  proof -
    have a: "length (lit ''2024-01-05T06:00:00+02:00'') = 25" by (simp add: lit_def)
    have b: "take 10 (lit ''2024-01-05T06:00:00+02:00'') = lit ''2024-01-05''"
      "take 2 (drop 11 (lit ''2024-01-05T06:00:00+02:00'')) = lit ''06''"
      "take 2 (drop 14 (lit ''2024-01-05T06:00:00+02:00'')) = lit ''00''"
      "take 2 (drop 17 (lit ''2024-01-05T06:00:00+02:00'')) = lit ''00''"
      "take (Suc 0) (drop 19 (lit ''2024-01-05T06:00:00+02:00'')) = lit ''+''"
      "take 2 (drop 20 (lit ''2024-01-05T06:00:00+02:00'')) = lit ''02''"
      "drop 23 (lit ''2024-01-05T06:00:00+02:00'') = lit ''00''"
      "length (lit ''2024-01-05'') = 10"
      by (simp_all add: lit_def)
    show ?thesis
      unfolding iso_instant_def Let_def a
      by (simp add: b pieces nm calendar_2024_01_05(2))
  qed
  have i2: "iso_instant (lit ''2024-01-05T08:00:00+02:00'') = Some 1704434400000"
  proof -
    have a: "length (lit ''2024-01-05T08:00:00+02:00'') = 25" by (simp add: lit_def)
    have b: "take 10 (lit ''2024-01-05T08:00:00+02:00'') = lit ''2024-01-05''"
      "take 2 (drop 11 (lit ''2024-01-05T08:00:00+02:00'')) = lit ''08''"
      "take 2 (drop 14 (lit ''2024-01-05T08:00:00+02:00'')) = lit ''00''"
      "take 2 (drop 17 (lit ''2024-01-05T08:00:00+02:00'')) = lit ''00''"
      "take (Suc 0) (drop 19 (lit ''2024-01-05T08:00:00+02:00'')) = lit ''+''"
      "take 2 (drop 20 (lit ''2024-01-05T08:00:00+02:00'')) = lit ''02''"
      "drop 23 (lit ''2024-01-05T08:00:00+02:00'') = lit ''00''"
      "length (lit ''2024-01-05'') = 10"
      by (simp_all add: lit_def)
    show ?thesis
      unfolding iso_instant_def Let_def a
      by (simp add: b pieces nm calendar_2024_01_05(2))
  qed
  from t i1 i2 calendar_2024_01_05(4,5) show ?thesis by simp
qed

end
